theory Spec2Isabelle
  imports Complex_Main "HOL-Library.AList"
begin

section \<open>Python values\<close>

text \<open>
  The orchestration layer passes plain Python dictionaries around. A dictionary is an
  association list in insertion order (\<open>AList.update\<close> overwrites in place or appends,
  as a Python \<open>dict\<close> does), a float is the rational it denotes (rounding, \<open>inf\<close>
  and \<open>nan\<close> are outside the model), and a string is a list of characters with code
  points below 256.
\<close>

datatype pyval =
    VStr string
  | VInt int
  | VFloat rat
  | VList "pyval list"
  | VNone

type_synonym pydict = "(string \<times> pyval) list"

text \<open>
  Exceptions are values. The classes of \<^verbatim>\<open>production/error_handling.py\<close> carry a message
  and a severity; any other subclass of \<open>Exception\<close> is its class name and its
  \<open>str()\<close>. Exceptions outside the \<open>Exception\<close> hierarchy (\<open>KeyboardInterrupt\<close>,
  \<open>SystemExit\<close>) are not modelled.
\<close>

datatype ErrorSeverity = LOW | MEDIUM | HIGH | CRITICAL

datatype assistant_error =
    InvestmentAssistantError
  | ModelTimeoutError
  | DataFetchError
  | ValidationError
  | ConfigurationError

datatype exception =
    Assistant assistant_error string ErrorSeverity
  | Builtin string string

fun class_name :: "assistant_error \<Rightarrow> string" where
  "class_name InvestmentAssistantError = ''InvestmentAssistantError''"
| "class_name ModelTimeoutError = ''ModelTimeoutError''"
| "class_name DataFetchError = ''DataFetchError''"
| "class_name ValidationError = ''ValidationError''"
| "class_name ConfigurationError = ''ConfigurationError''"

fun type_name :: "exception \<Rightarrow> string" where
  "type_name (Assistant c m s) = class_name c"
| "type_name (Builtin c m) = c"

fun str_of :: "exception \<Rightarrow> string" where
  "str_of (Assistant c m s) = m"
| "str_of (Builtin c m) = m"

subsection \<open>The string methods the code calls\<close>

text \<open>\<open>str.isspace\<close> on one character, for code points below 256.\<close>

definition isspace :: "char \<Rightarrow> bool" where
  "isspace c =
     (let n = (of_char c :: nat)
      in (9 \<le> n \<and> n \<le> 13) \<or> (28 \<le> n \<and> n \<le> 32) \<or> n = 133 \<or> n = 160)"

definition strip :: "string \<Rightarrow> string" where
  "strip s = rev (dropWhile isspace (rev (dropWhile isspace s)))"

text \<open>\<open>s.split(sep)\<close> for a separator of one character: never the empty list.\<close>

fun py_split :: "char \<Rightarrow> string \<Rightarrow> string list" where
  "py_split sep [] = [[]]"
| "py_split sep (c # cs) =
     (if c = sep then [] # py_split sep cs
      else (case py_split sep cs of
              [] \<Rightarrow> [[c]]
            | piece # pieces \<Rightarrow> (c # piece) # pieces))"

text \<open>
  \<open>float(s)\<close> is a builtin: the router takes it as a parameter, \<open>None\<close> where Python
  raises \<open>ValueError\<close>. For concrete runs, \<open>float_decimal\<close> is the builtin on plain
  decimal literals (an optional sign, digits, an optional point and digits); it rejects
  every other string, also the exponents and the \<open>inf\<close> and \<open>nan\<close> that Python reads.
\<close>

definition is_digit :: "char \<Rightarrow> bool" where
  "is_digit c = (let n = (of_char c :: nat) in 48 \<le> n \<and> n \<le> 57)"

definition nat_of_digits :: "string \<Rightarrow> nat" where
  "nat_of_digits ds = foldl (\<lambda>acc c. 10 * acc + (of_char c - 48)) 0 ds"

definition float_decimal :: "string \<Rightarrow> rat option" where
  "float_decimal s =
     (let t = strip s;
          neg = (case t of c # r \<Rightarrow> c = CHR ''-'' | [] \<Rightarrow> False);
          body = (case t of c # r \<Rightarrow> if c = CHR ''-'' \<or> c = CHR ''+'' then r else t | [] \<Rightarrow> t);
          whole = takeWhile is_digit body;
          rest = dropWhile is_digit body;
          frac = (case rest of
                    [] \<Rightarrow> Some []
                  | c # f \<Rightarrow> if c = CHR ''.'' \<and> list_all is_digit f then Some f else None)
      in case frac of
           None \<Rightarrow> None
         | Some f \<Rightarrow>
             if whole = [] \<and> f = [] then None
             else Some ((if neg then - 1 else 1) *
                        (of_nat (nat_of_digits (whole @ f)) / 10 ^ length f)))"

section \<open>nodes/router.py: the router node\<close>

text \<open>
  \<^verbatim>\<open>
  def router_node(state):
      llm = get_llm()
      chain = ROUTER_PROMPT | llm
      result = chain.invoke({"user_message": state["user_message"]})
      try:
          intent, confidence = result.content.strip().split("|")
          confidence = float(confidence)
      except:
          # Fallback for parsing errors
          intent = "question_answering"
          confidence = 0.5
      return {"intent": intent, "confidence": confidence}
  \<close>
  The chain (prompt and language model) is a parameter: it maps the user's message to
  the reply's \<open>content\<close>, or raises. The bare \<open>except\<close> catches whatever the three
  steps of the \<open>try\<close> raise: \<open>content\<close> that has no \<open>strip\<close>, an unpacking of other
  than two pieces, a second piece that \<open>float\<close> rejects.
\<close>

definition router_node ::
  "(pyval \<Rightarrow> exception + pyval) \<Rightarrow> (string \<Rightarrow> rat option) \<Rightarrow> pydict \<Rightarrow> exception + pydict" where
  "router_node chain float state =
     (case map_of state ''user_message'' of
        None \<Rightarrow> Inl (Builtin ''KeyError'' ([CHR 0x27] @ ''user_message'' @ [CHR 0x27]))
      | Some user_message \<Rightarrow>
          (case chain user_message of
             Inl e \<Rightarrow> Inl e
           | Inr content \<Rightarrow>
               (let fallback = [(''intent'', VStr ''question_answering''), (''confidence'', VFloat (1 / 2))]
                in case content of
                     VStr text \<Rightarrow>
                       (case py_split CHR ''|'' (strip text) of
                          [intent, confidence] \<Rightarrow>
                            (case float confidence of
                               Some c \<Rightarrow> Inr [(''intent'', VStr intent), (''confidence'', VFloat c)]
                             | None \<Rightarrow> Inr fallback)
                        | _ \<Rightarrow> Inr fallback)
                   | _ \<Rightarrow> Inr fallback)))"

section \<open>graph.py: routing and the graph\<close>

text \<open>
  \<^verbatim>\<open>
  def route_decision(state):
      intent = state.get("intent", "question_answering")
      if intent == "profile_analysis":
          return "profile_analyzer"
      elif intent == "portfolio_creation":
          return "portfolio_builder"
      elif intent == "market_research":
          return "market_researcher"
      else:
          return "question_answerer"
  \<close>
\<close>

definition route_decision :: "pydict \<Rightarrow> string" where
  "route_decision state =
     (let intent = (case map_of state ''intent'' of
                      None \<Rightarrow> VStr ''question_answering''
                    | Some v \<Rightarrow> v)
      in if intent = VStr ''profile_analysis'' then ''profile_analyzer''
         else if intent = VStr ''portfolio_creation'' then ''portfolio_builder''
         else if intent = VStr ''market_research'' then ''market_researcher''
         else ''question_answerer'')"

text \<open>
  \<open>StateGraph(InvestmentState)\<close>: the state of the graph has one channel for each key
  the \<open>TypedDict\<close> declares, and no other. \<open>channels keys values\<close> is the state the
  library reads from its channels: the declared keys that have a value, in the order of
  the declaration.
\<close>

definition InvestmentState :: "string list" where
  "InvestmentState =
     [''user_message'', ''conversation_history'',
      ''intent'', ''confidence'',
      ''risk_tolerance'', ''investment_horizon'', ''age_range'', ''income_level'',
      ''investment_goals'', ''reasoning'',
      ''recommended_allocation'', ''etf_selection'', ''builder_reasoning'',
      ''stock_symbol'', ''current_price'', ''price_change_pct'', ''technical_signals'',
      ''fundamental_ratios'', ''market_analysis'', ''recommendation'', ''confidence_score'',
      ''response'', ''next_action'']"

fun channels :: "string list \<Rightarrow> pydict \<Rightarrow> pydict" where
  "channels [] values = []"
| "channels (key # keys) values =
     (case map_of values key of
        None \<Rightarrow> channels keys values
      | Some v \<Rightarrow> (key, v) # channels keys values)"

text \<open>
  The graph is built by \<open>add_node\<close>, \<open>set_entry_point\<close>, \<open>add_conditional_edges\<close>
  and \<open>add_edge\<close>; the record holds what these calls register. The five node
  functions are parameters: each maps the state to the update it returns, or raises.
\<close>

type_synonym node_function = "pydict \<Rightarrow> exception + pydict"

record node_functions =
  router_fn :: node_function
  profile_analyzer_node :: node_function
  portfolio_builder_node :: node_function
  market_researcher_node :: node_function
  question_answerer_node :: node_function

record state_graph =
  state_schema :: "string list"
  nodes :: "(string \<times> node_function) list"
  entry_point :: string
  conditional_edges :: "(string \<times> (pydict \<Rightarrow> string) \<times> (string \<times> string) list) list"
  edges :: "(string \<times> string) list"

definition END :: string where
  "END = ''__end__''"

definition graph :: "node_functions \<Rightarrow> state_graph" where
  "graph fs =
     \<lparr> state_schema = InvestmentState,
       nodes =
         [(''router'', router_fn fs),
          (''profile_analyzer'', profile_analyzer_node fs),
          (''portfolio_builder'', portfolio_builder_node fs),
          (''market_researcher'', market_researcher_node fs),
          (''question_answerer'', question_answerer_node fs)],
       entry_point = ''router'',
       conditional_edges =
         [(''router'', route_decision,
           [(''profile_analyzer'', ''profile_analyzer''),
            (''portfolio_builder'', ''portfolio_builder''),
            (''market_researcher'', ''market_researcher''),
            (''question_answerer'', ''question_answerer''),
            (END, END)])],
       edges =
         [(''profile_analyzer'', END),
          (''portfolio_builder'', END),
          (''market_researcher'', END),
          (''question_answerer'', END)] \<rparr>"

text \<open>
  \<open>graph.compile().invoke(state)\<close> is the library's executor. As far as this graph
  uses it: write the keys of the input that the schema declares to their channels (the
  others are dropped); run the current node on the state read from the channels; write
  the declared keys of the update it returns (a key written again is overwritten, an
  undeclared key is dropped); follow the node's conditional edge (the decision function's
  answer, looked up in the edge's table) or else its plain edge; stop at \<open>END\<close> with
  the state read from the channels. A node that raises ends the run with its exception
  and writes nothing; the library gives up with \<open>GraphRecursionError\<close> after
  \<open>recursion_limit\<close> steps. The second component of the result lists the nodes that
  ran, in order. What the library does with an input or an update that has none of the
  declared keys is not modelled: here it writes nothing.
\<close>

definition merge_update :: "pydict \<Rightarrow> pydict \<Rightarrow> pydict" where
  "merge_update state upd = fold (\<lambda>(k, v). AList.update k v) upd state"

definition successor :: "state_graph \<Rightarrow> string \<Rightarrow> pydict \<Rightarrow> string option" where
  "successor g name state =
     (case map_of (conditional_edges g) name of
        Some (decide, table) \<Rightarrow> map_of table (decide state)
      | None \<Rightarrow> map_of (edges g) name)"

definition recursion_limit :: nat where
  "recursion_limit = 25"

fun run :: "state_graph \<Rightarrow> nat \<Rightarrow> string \<Rightarrow> pydict \<Rightarrow> string list \<Rightarrow> (exception + pydict) \<times> string list" where
  "run g 0 name state visited =
     (if name = END then (Inr state, visited)
      else (Inl (Builtin ''GraphRecursionError'' ''Recursion limit reached''), visited))"
| "run g (Suc steps) name state visited =
     (if name = END then (Inr state, visited)
      else
        (case map_of (nodes g) name of
           None \<Rightarrow> (Inl (Builtin ''ValueError'' name), visited)
         | Some f \<Rightarrow>
             (case f state of
                Inl e \<Rightarrow> (Inl e, visited @ [name])
              | Inr upd \<Rightarrow>
                  (let state' = channels (state_schema g) (merge_update state upd)
                   in case successor g name state' of
                        None \<Rightarrow> (Inl (Builtin ''ValueError'' name), visited @ [name])
                      | Some next_name \<Rightarrow> run g steps next_name state' (visited @ [name])))))"

definition investment_graph :: "node_functions \<Rightarrow> pydict \<Rightarrow> (exception + pydict) \<times> string list" where
  "investment_graph fs state =
     run (graph fs) recursion_limit (entry_point (graph fs)) (channels (state_schema (graph fs)) state) []"

definition stage_names :: "string list" where
  "stage_names = [''profile_analyzer'', ''portfolio_builder'', ''market_researcher'', ''question_answerer'']"

section \<open>api/main.py: sliding-window rate limiting\<close>

text \<open>
  \<^verbatim>\<open>
  request_times = {}

  async def rate_limit_check(request: ChatRequest):
      if not config.api_key_required:  # Skip rate limiting in development
          return
      user_id = request.user_id or "anonymous"
      now = time.time()
      if user_id in request_times:
          request_times[user_id] = [t for t in request_times[user_id] if now - t < 60]
      else:
          request_times[user_id] = []
      recent_requests = len(request_times[user_id])
      if recent_requests >= config.max_requests_per_minute:
          raise HTTPException(status_code=429, detail="Rate limit exceeded")
      request_times[user_id].append(now)
  \<close>
  The two configuration fields the check reads are a record; the module-level dictionary
  \<open>request_times\<close> is passed in and returned; \<open>now\<close> is the reading of the clock.
\<close>

record config =
  api_key_required :: bool
  max_requests_per_minute :: int

datatype http_exception = HTTPException int string

type_synonym request_times = "(string \<times> rat list) list"

definition identity_of :: "string option \<Rightarrow> string" where
  "identity_of user_id =
     (case user_id of
        None \<Rightarrow> ''anonymous''
      | Some u \<Rightarrow> if u = [] then ''anonymous'' else u)"

definition window_of :: "request_times \<Rightarrow> string \<Rightarrow> rat list" where
  "window_of rt user_id = (case map_of rt user_id of None \<Rightarrow> [] | Some ts \<Rightarrow> ts)"

definition prune :: "rat \<Rightarrow> rat list \<Rightarrow> rat list" where
  "prune now ts = filter (\<lambda>t. now - t < 60) ts"

definition rate_limit_check ::
  "config \<Rightarrow> string option \<Rightarrow> rat \<Rightarrow> request_times \<Rightarrow> (http_exception + unit) \<times> request_times" where
  "rate_limit_check cfg uid now rt =
     (if \<not> api_key_required cfg then (Inr (), rt)
      else
        let user_id = identity_of uid;
            rt1 = (case map_of rt user_id of
                     Some ts \<Rightarrow> AList.update user_id (prune now ts) rt
                   | None \<Rightarrow> AList.update user_id [] rt);
            recent_requests = int (length (window_of rt1 user_id))
        in if recent_requests \<ge> max_requests_per_minute cfg
           then (Inl (HTTPException 429 ''Rate limit exceeded''), rt1)
           else (Inr (), AList.update user_id (window_of rt1 user_id @ [now]) rt1))"



section \<open>The production layer\<close>

text \<open>
  The modules under \<^verbatim>\<open>production/\<close> keep their state in module-level objects
  (\<open>metrics\<close>, \<open>performance\<close>, \<open>error_handler\<close>, \<open>production_graph\<close>), read the
  clock, sleep and write to loggers. All of it is one record that every function takes
  and returns.

  \<^item> \<open>time.time()\<close>: the clock is a parameter, \<open>clock w n\<close> being what the \<open>n\<close>-th
    reading returns; \<open>ticks\<close> counts the readings made so far.
  \<^item> \<open>time.sleep(s)\<close> appends \<open>s\<close> to \<open>slept\<close>; it raises \<open>ValueError\<close> for a negative \<open>s\<close>.
  \<^item> The loggers' records are collected in \<open>logs\<close>, each with the level of the method
    that wrote it. The formatted message is kept as its parts; the traceback that
    \<open>log_error\<close> adds to its record is left out.
  \<^item> \<open>graph_calls\<close> counts the calls of \<open>self.graph.invoke\<close> (see \<open>invoke_body\<close>).

  The daemon thread that \<open>MetricsCollector.__init__\<close> starts appends system readings to
  the windows \<open>cpu_usage\<close>, \<open>memory_usage\<close> and \<open>disk_usage\<close> every 30 seconds; it
  is not modelled, and neither is \<open>record_llm_usage\<close>, which nothing calls.
\<close>

record MetricsCollector =
  window_size :: nat
  metrics :: "(string \<times> rat list) list"
  counters :: "(string \<times> int) list"
  start_time :: rat

record PerformanceMonitor =
  component_metrics :: "(string \<times> (rat \<times> rat) list) list"

record ErrorHandler =
  error_counts :: "(string \<times> int) list"
  error_patterns :: "string list"

datatype logger_level = logger_info | logger_warning | logger_error | logger_critical

datatype log_record =
    Processing string pyval
  | Completed string rat pyval
  | Failed string rat string
  | UsingFallback string
  | ErrorInfo string string rat pydict

record world =
  clock :: "nat \<Rightarrow> rat"
  ticks :: nat
  slept :: "rat list"
  logs :: "(logger_level \<times> log_record) list"
  error_handler :: ErrorHandler
  metrics_collector :: MetricsCollector
  performance :: PerformanceMonitor
  request_count :: int
  graph_calls :: nat

definition time_time :: "world \<Rightarrow> rat \<times> world" where
  "time_time w = (clock w (ticks w), w\<lparr>ticks := ticks w + 1\<rparr>)"

definition sleep :: "rat \<Rightarrow> world \<Rightarrow> (exception + unit) \<times> world" where
  "sleep secs w =
     (if secs < 0 then (Inl (Builtin ''ValueError'' ''sleep length must be non-negative''), w)
      else (Inr (), w\<lparr>slept := slept w @ [secs]\<rparr>))"

definition logger :: "logger_level \<Rightarrow> log_record \<Rightarrow> world \<Rightarrow> world" where
  "logger level entry w = w\<lparr>logs := logs w @ [(level, entry)]\<rparr>"

subsection \<open>Strings and numbers in the formatted keys\<close>

text \<open>
  \<open>str(i)\<close> for an integer, \<open>int(x)\<close> for a float (rounding towards zero), and
  \<open>s.replace(old, new)\<close>. What an f-string makes of a value that is not a string is
  left to the parameter \<open>fmt\<close>.
\<close>

fun digits :: "nat \<Rightarrow> string" where
  "digits n = (if n < 10 then [char_of (48 + n)] else digits (n div 10) @ [char_of (48 + n mod 10)])"

declare digits.simps [simp del]

definition str_int :: "int \<Rightarrow> string" where
  "str_int i = (if i < 0 then CHR ''-'' # digits (nat (- i)) else digits (nat i))"

definition int_of_float :: "rat \<Rightarrow> int" where
  "int_of_float x = (if 0 \<le> x then \<lfloor>x\<rfloor> else \<lceil>x\<rceil>)"

definition startswith :: "string \<Rightarrow> string \<Rightarrow> bool" where
  "startswith s pre = (take (length pre) s = pre)"

fun replace_from :: "string \<Rightarrow> string \<Rightarrow> nat \<Rightarrow> string \<Rightarrow> string" where
  "replace_from old new skip [] = []"
| "replace_from old new (Suc skip) (c # cs) = replace_from old new skip cs"
| "replace_from old new 0 (c # cs) =
     (if startswith (c # cs) old then new @ replace_from old new (length old - 1) cs
      else c # replace_from old new 0 cs)"

definition replace :: "string \<Rightarrow> string \<Rightarrow> string \<Rightarrow> string" where
  "replace s old new = replace_from old new 0 s"

definition format :: "(pyval \<Rightarrow> string) \<Rightarrow> pyval \<Rightarrow> string" where
  "format fmt v = (case v of VStr s \<Rightarrow> s | _ \<Rightarrow> fmt v)"

subsection \<open>production/monitoring.py\<close>

text \<open>
  \<open>self.metrics\<close> is a \<open>defaultdict\<close> of bounded deques and \<open>self.counters\<close> a
  \<open>defaultdict(int)\<close>: reading a key that is missing stores the default under it.
  \<open>deque(maxlen=n).append(x)\<close> drops from the left what exceeds \<open>n\<close> entries.
\<close>

definition lookup :: "'v \<Rightarrow> (string \<times> 'v) list \<Rightarrow> string \<Rightarrow> 'v" where
  "lookup missing d k = (case map_of d k of None \<Rightarrow> missing | Some v \<Rightarrow> v)"

definition touch :: "'v \<Rightarrow> string \<Rightarrow> (string \<times> 'v) list \<Rightarrow> (string \<times> 'v) list" where
  "touch missing k d = (case map_of d k of None \<Rightarrow> d @ [(k, missing)] | Some v \<Rightarrow> d)"

definition deque_append :: "nat \<Rightarrow> 'a list \<Rightarrow> 'a \<Rightarrow> 'a list" where
  "deque_append maxlen d x = drop (length (d @ [x]) - maxlen) (d @ [x])"

definition append_metric :: "nat \<Rightarrow> string \<Rightarrow> rat \<Rightarrow> (string \<times> rat list) list \<Rightarrow> (string \<times> rat list) list" where
  "append_metric maxlen k x ms = AList.update k (deque_append maxlen (lookup [] ms k) x) ms"

definition increment :: "string \<Rightarrow> (string \<times> int) list \<Rightarrow> (string \<times> int) list" where
  "increment k cs = AList.update k (lookup 0 cs k + 1) cs"

text \<open>
  \<^verbatim>\<open>
  def record_request(self, intent: str, response_time: float, success: bool = True):
      """Record a request with timing and success metrics"""
      timestamp = time.time()

      self.metrics["response_times"].append(response_time)
      self.metrics["requests_per_minute"].append(timestamp)

      self.counters["total_requests"] += 1
      self.counters[f"intent_{intent}"] += 1

      if success:
          self.counters["successful_requests"] += 1
      else:
          self.counters["failed_requests"] += 1
  \<close>
  \<^verbatim>\<open>
  def record_error(self, error_type: str, severity: str):
      """Record error metrics"""
      self.counters[f"error_{error_type}"] += 1
      self.counters[f"severity_{severity}"] += 1
      self.counters["total_errors"] += 1
  \<close>
\<close>

definition record_request :: "(pyval \<Rightarrow> string) \<Rightarrow> pyval \<Rightarrow> rat \<Rightarrow> bool \<Rightarrow> world \<Rightarrow> world" where
  "record_request fmt intent response_time success w =
     (case time_time w of
        (timestamp, w1) \<Rightarrow>
          (let m = metrics_collector w1;
               ms = append_metric (window_size m) ''requests_per_minute'' timestamp
                      (append_metric (window_size m) ''response_times'' response_time (metrics m));
               cs = increment (if success then ''successful_requests'' else ''failed_requests'')
                      (increment (''intent_'' @ format fmt intent)
                         (increment ''total_requests'' (counters m)))
           in w1\<lparr>metrics_collector := m\<lparr>metrics := ms, counters := cs\<rparr>\<rparr>))"


text \<open>
  \<^verbatim>\<open>
  def get_metrics_summary(self) -> Dict[str, Any]:
      """Get comprehensive metrics summary"""
      now = time.time()
      uptime = now - self.start_time

      # Calculate rates
      recent_requests = [t for t in self.metrics["requests_per_minute"]
                        if now - t < 60]  # Last minute
      requests_per_minute = len(recent_requests)

      response_times = list(self.metrics["response_times"])
      avg_response_time = sum(response_times) / len(response_times) if response_times else 0

      return {
          "uptime_seconds": uptime,
          "system": {
              "cpu_usage": list(self.metrics["cpu_usage"])[-1] if self.metrics["cpu_usage"] else 0,
              "memory_usage": list(self.metrics["memory_usage"])[-1] if self.metrics["memory_usage"] else 0,
              "disk_usage": list(self.metrics["disk_usage"])[-1] if self.metrics["disk_usage"] else 0,
          },
          "requests": {
              "total": self.counters["total_requests"],
              "successful": self.counters["successful_requests"],
              "failed": self.counters["failed_requests"],
              "per_minute": requests_per_minute,
              "avg_response_time": avg_response_time,
          },
          "llm": {
              "total_tokens": self.counters["total_tokens"],
              "total_cost": self.counters.get("total_cost", 0),
              "avg_tokens_per_request": (
                  self.counters["total_tokens"] / max(self.counters["total_requests"], 1)
              ),
          },
          "errors": {
              "total": self.counters["total_errors"],
              "rate": self.counters["total_errors"] / max(self.counters["total_requests"], 1),
          },
          "intents": {
              key.replace("intent_", ""): value
              for key, value in self.counters.items()
              if key.startswith("intent_")
          }
      }
  \<close>
  The summary is a record, its nested keys joined by an underscore. Reading
  \<open>self.metrics[...]\<close> and \<open>self.counters[...]\<close> stores the missing keys, in the order
  in which the function reads them; \<open>self.counters.get\<close> stores nothing.
\<close>

record metrics_summary =
  uptime_seconds :: rat
  system_cpu_usage :: rat
  system_memory_usage :: rat
  system_disk_usage :: rat
  requests_total :: int
  requests_successful :: int
  requests_failed :: int
  requests_per_minute :: nat
  requests_avg_response_time :: rat
  llm_total_tokens :: int
  llm_total_cost :: int
  llm_avg_tokens_per_request :: rat
  errors_total :: int
  errors_rate :: rat
  intents :: "(string \<times> int) list"

definition latest :: "rat list \<Rightarrow> rat" where
  "latest d = (if d = [] then 0 else last d)"

definition get_metrics_summary :: "world \<Rightarrow> metrics_summary \<times> world" where
  "get_metrics_summary w =
     (case time_time w of
        (now, w1) \<Rightarrow>
          (let m = metrics_collector w1;
               ms = fold (touch [])
                      [''requests_per_minute'', ''response_times'', ''cpu_usage'', ''memory_usage'', ''disk_usage'']
                      (metrics m);
               cs = fold (touch 0)
                      [''total_requests'', ''successful_requests'', ''failed_requests'', ''total_tokens'', ''total_errors'']
                      (counters m);
               recent_requests = filter (\<lambda>t. now - t < 60) (lookup [] ms ''requests_per_minute'');
               response_times = lookup [] ms ''response_times''
           in (\<lparr> uptime_seconds = now - start_time m,
                 system_cpu_usage = latest (lookup [] ms ''cpu_usage''),
                 system_memory_usage = latest (lookup [] ms ''memory_usage''),
                 system_disk_usage = latest (lookup [] ms ''disk_usage''),
                 requests_total = lookup 0 cs ''total_requests'',
                 requests_successful = lookup 0 cs ''successful_requests'',
                 requests_failed = lookup 0 cs ''failed_requests'',
                 requests_per_minute = length recent_requests,
                 requests_avg_response_time =
                   (if response_times = [] then 0
                    else sum_list response_times / of_nat (length response_times)),
                 llm_total_tokens = lookup 0 cs ''total_tokens'',
                 llm_total_cost = lookup 0 cs ''total_cost'',
                 llm_avg_tokens_per_request =
                   of_int (lookup 0 cs ''total_tokens'') / of_int (max (lookup 0 cs ''total_requests'') 1),
                 errors_total = lookup 0 cs ''total_errors'',
                 errors_rate =
                   of_int (lookup 0 cs ''total_errors'') / of_int (max (lookup 0 cs ''total_requests'') 1),
                 intents =
                   fold (\<lambda>(key, v). AList.update (replace key ''intent_'' []) v)
                     (filter (\<lambda>(key, v). startswith key ''intent_'') cs) [] \<rparr>,
               w1\<lparr>metrics_collector := m\<lparr>metrics := ms, counters := cs\<rparr>\<rparr>)))"

text \<open>
  \<^verbatim>\<open>
  def record_component_time(self, component_name: str, duration: float):
      """Record component execution time"""
      self.component_metrics[component_name].append({
          "duration": duration,
          "timestamp": time.time()
      })

      # Keep only recent entries (last 100)
      if len(self.component_metrics[component_name]) > 100:
          self.component_metrics[component_name] = self.component_metrics[component_name][-100:]
  \<close>
  \<^verbatim>\<open>
  def __enter__(self):
      self.start_time = time.time()
      return self

  def __exit__(self, exc_type, exc_val, exc_tb):
      duration = time.time() - self.start_time
      self.monitor.record_component_time(self.component_name, duration)
  \<close>
  \<open>PerformanceMonitor\<close>: a measurement is its duration and its timestamp; a component
  keeps its last 100. \<open>ComponentTimer\<close> is written out where \<open>invoke\<close> uses it.
\<close>

definition record_component_time :: "string \<Rightarrow> rat \<Rightarrow> world \<Rightarrow> world" where
  "record_component_time component_name duration w =
     (case time_time w of
        (timestamp, w1) \<Rightarrow>
          (let measurements = lookup [] (component_metrics (performance w1)) component_name @ [(duration, timestamp)];
               kept = (if length measurements > 100 then drop (length measurements - 100) measurements
                       else measurements)
           in w1\<lparr>performance :=
                   (performance w1)\<lparr>component_metrics :=
                      AList.update component_name kept (component_metrics (performance w1))\<rparr>\<rparr>))"

record component_stats =
  count :: nat
  avg_duration :: rat
  min_duration :: rat
  max_duration :: rat
  last_duration :: rat

definition get_component_stats :: "world \<Rightarrow> (string \<times> component_stats) list" where
  "get_component_stats w =
     map (\<lambda>(component, measurements).
            (let durations = map fst measurements
             in (component,
                 \<lparr> count = length durations,
                   avg_duration = sum_list durations / of_nat (length durations),
                   min_duration = fold min (tl durations) (hd durations),
                   max_duration = fold max (tl durations) (hd durations),
                   last_duration = last durations \<rparr>)))
         (filter (\<lambda>(component, measurements). measurements \<noteq> [])
            (component_metrics (performance w)))"

subsection \<open>production/error_handling.py\<close>

text \<open>
  \<^verbatim>\<open>
  def log_error(self, error: Exception, context: Dict[str, Any] = None):
      """Log error with structured information"""
      error_info = {
          "error_type": type(error).__name__,
          "error_message": str(error),
          "timestamp": time.time(),
          "context": context or {},
          "traceback": traceback.format_exc()
      }

      # Track error frequency
      error_key = f"{type(error).__name__}:{str(error)[:100]}"
      self.error_counts[error_key] = self.error_counts.get(error_key, 0) + 1

      # Log based on severity
      if isinstance(error, InvestmentAssistantError):
          if error.severity == ErrorSeverity.CRITICAL:
              logger.critical(json.dumps(error_info))
          elif error.severity == ErrorSeverity.HIGH:
              logger.error(json.dumps(error_info))
          elif error.severity == ErrorSeverity.MEDIUM:
              logger.warning(json.dumps(error_info))
          else:
              logger.info(json.dumps(error_info))
      else:
          logger.error(json.dumps(error_info))
  \<close>
  \<open>ErrorHandler.log_error\<close> counts the error under the key made of its type and the
  first 100 characters of its message, and writes one record whose level the severity
  selects (\<open>error\<close> for an exception that carries none).
\<close>

fun level_of :: "exception \<Rightarrow> logger_level" where
  "level_of (Assistant c m CRITICAL) = logger_critical"
| "level_of (Assistant c m HIGH) = logger_error"
| "level_of (Assistant c m MEDIUM) = logger_warning"
| "level_of (Assistant c m LOW) = logger_info"
| "level_of (Builtin c m) = logger_error"

definition error_key :: "exception \<Rightarrow> string" where
  "error_key e = type_name e @ '':'' @ take 100 (str_of e)"

definition log_error :: "exception \<Rightarrow> pydict \<Rightarrow> world \<Rightarrow> world" where
  "log_error e ctx w =
     (case time_time w of
        (timestamp, w1) \<Rightarrow>
          (let error_info = ErrorInfo (type_name e) (str_of e) timestamp ctx;
               w2 = w1\<lparr>error_handler :=
                         (error_handler w1)\<lparr>error_counts :=
                            increment (error_key e) (error_counts (error_handler w1))\<rparr>\<rparr>
           in logger (level_of e) error_info w2))"

text \<open>
  \<^verbatim>\<open>
  def with_error_handling(retries: int = 3, delay: float = 1.0,
                         fallback_response: Optional[Dict] = None):
      """Decorator for robust error handling with retries"""
      def decorator(func: Callable):
          @wraps(func)
          def wrapper(*args, **kwargs):
              last_exception = None

              for attempt in range(retries + 1):
                  try:
                      return func(*args, **kwargs)

                  except ModelTimeoutError as e:
                      last_exception = e
                      error_handler.log_error(e, {"attempt": attempt, "function": func.__name__})
                      if attempt < retries:
                          time.sleep(delay * (2 ** attempt))  # Exponential backoff
                          continue
                      break

                  except DataFetchError as e:
                      last_exception = e
                      error_handler.log_error(e, {"attempt": attempt, "function": func.__name__})
                      if attempt < retries:
                          time.sleep(delay)
                          continue
                      break

                  except ValidationError as e:
                      # Don't retry validation errors
                      error_handler.log_error(e, {"function": func.__name__})
                      break

                  except Exception as e:
                      last_exception = e
                      error_handler.log_error(e, {"attempt": attempt, "function": func.__name__})
                      if attempt < retries:
                          time.sleep(delay)
                          continue
                      break

              # All retries failed, return fallback or raise
              if fallback_response:
                  logger.warning(f"Using fallback response for {func.__name__}")
                  return fallback_response
              else:
                  raise last_exception

          return wrapper
      return decorator
  \<close>
  \<open>with_error_handling(retries, delay, fallback_response)\<close> wraps \<open>func\<close> in the loop
  \<open>for attempt in range(retries + 1)\<close>. The loop is left by the \<open>return\<close> of a call
  that succeeds, by a \<open>break\<close>, by running out of attempts (only when \<open>retries\<close> is
  negative), or by what \<open>time.sleep\<close> raises inside a handler. \<open>last_exception\<close> is
  what the loop has assigned when it is left; the handler of \<open>ValidationError\<close> does
  not assign it. After the loop a fallback that is truthy (a dictionary that is not
  empty) is returned; otherwise \<open>raise last_exception\<close>, which is a \<open>TypeError\<close> when
  nothing was assigned.
\<close>

fun is_ValidationError :: "exception \<Rightarrow> bool" where
  "is_ValidationError (Assistant c m s) = (c = ValidationError)"
| "is_ValidationError (Builtin c m) = False"

fun is_ModelTimeoutError :: "exception \<Rightarrow> bool" where
  "is_ModelTimeoutError (Assistant c m s) = (c = ModelTimeoutError)"
| "is_ModelTimeoutError (Builtin c m) = False"

datatype 'a loop_exit = Returned 'a | Raised exception | Broke "exception option"

fun attempts ::
  "int \<Rightarrow> rat \<Rightarrow> string \<Rightarrow> (world \<Rightarrow> (exception + 'a) \<times> world) \<Rightarrow>
   int list \<Rightarrow> exception option \<Rightarrow> world \<Rightarrow> 'a loop_exit \<times> world" where
  "attempts retries delay name func [] last_exception w = (Broke last_exception, w)"
| "attempts retries delay name func (attempt # later) last_exception w =
     (case func w of
        (Inr result, w1) \<Rightarrow> (Returned result, w1)
      | (Inl e, w1) \<Rightarrow>
          if is_ValidationError e
          then (Broke last_exception, log_error e [(''function'', VStr name)] w1)
          else
            (let w2 = log_error e [(''attempt'', VInt attempt), (''function'', VStr name)] w1
             in if attempt < retries
                then (case sleep (if is_ModelTimeoutError e then delay * 2 ^ nat attempt else delay) w2 of
                        (Inl raised, w3) \<Rightarrow> (Raised raised, w3)
                      | (Inr u, w3) \<Rightarrow> attempts retries delay name func later (Some e) w3)
                else (Broke (Some e), w2)))"

definition with_error_handling ::
  "int \<Rightarrow> rat \<Rightarrow> pydict option \<Rightarrow> string \<Rightarrow> (world \<Rightarrow> (exception + pydict) \<times> world) \<Rightarrow>
   world \<Rightarrow> (exception + pydict) \<times> world" where
  "with_error_handling retries delay fallback_response name func w =
     (case attempts retries delay name func [0..retries] None w of
        (Returned result, w1) \<Rightarrow> (Inr result, w1)
      | (Raised e, w1) \<Rightarrow> (Inl e, w1)
      | (Broke last_exception, w1) \<Rightarrow>
          (case fallback_response of
             Some (item # items) \<Rightarrow>
               (Inr (item # items), logger logger_warning (UsingFallback name) w1)
           | _ \<Rightarrow>
               (case last_exception of
                  Some e \<Rightarrow> (Inl e, w1)
                | None \<Rightarrow> (Inl (Builtin ''TypeError'' ''exceptions must derive from BaseException''), w1))))"

subsection \<open>production/enhanced_graph.py\<close>

text \<open>
  \<^verbatim>\<open>
  def _validate_input(self, input_data: Dict[str, Any]):
      """Validate input data"""
      required_fields = ["user_message"]

      for field in required_fields:
          if field not in input_data:
              raise ValidationError(f"Missing required field: {field}")

      user_message = input_data["user_message"]

      if not isinstance(user_message, str):
          raise ValidationError("user_message must be a string")

      if len(user_message.strip()) == 0:
          raise ValidationError("user_message cannot be empty")

      if len(user_message) > 1000:  # Reasonable limit
          raise ValidationError("user_message too long (max 1000 characters)")
  \<close>
  \<open>ProductionInvestmentGraph._validate_input\<close>. Building the \<open>ValidationError\<close> reads
  the clock (the exception's \<open>timestamp\<close>); its severity is the default, \<open>MEDIUM\<close>.
\<close>

definition new_ValidationError :: "string \<Rightarrow> world \<Rightarrow> (exception + unit) \<times> world" where
  "new_ValidationError message w = (Inl (Assistant ValidationError message MEDIUM), snd (time_time w))"

definition validate_input :: "pydict \<Rightarrow> world \<Rightarrow> (exception + unit) \<times> world" where
  "validate_input input_data w =
     (case map_of input_data ''user_message'' of
        None \<Rightarrow> new_ValidationError ''Missing required field: user_message'' w
      | Some (VStr user_message) \<Rightarrow>
          if length (strip user_message) = 0
          then new_ValidationError ''user_message cannot be empty'' w
          else if length user_message > 1000
          then new_ValidationError ''user_message too long (max 1000 characters)'' w
          else (Inr (), w)
      | Some other \<Rightarrow> new_ValidationError ''user_message must be a string'' w)"

text \<open>
  \<^verbatim>\<open>
  @with_error_handling(
      retries=2,
      delay=1.0,
      fallback_response={
          "response": "I apologize, but I'm experiencing technical difficulties. Please try again in a moment.",
          "intent": "error",
          "confidence": 0.0
      }
  )
  def invoke(self, input_data: Dict[str, Any]) -> Dict[str, Any]:
      """Production invoke with monitoring and error handling"""
      start_time = time.time()
      self.request_count += 1
      request_id = f"req_{int(start_time)}_{self.request_count}"

      logger.info(f"Processing request {request_id}: {input_data.get('user_message', '')[:100]}")

      try:
          # Validate input
          self._validate_input(input_data)

          # Add request metadata
          enhanced_input = {
              **input_data,
              "request_id": request_id,
              "timestamp": start_time
          }

          # Time the graph execution
          with self.performance.time_component("graph_execution"):
              result = self.graph.invoke(enhanced_input)

          # Record successful request
          response_time = time.time() - start_time
          intent = result.get("intent", "unknown")

          metrics.record_request(intent, response_time, success=True)

          # Add response metadata
          result["request_id"] = request_id
          result["response_time"] = response_time

          logger.info(f"Completed request {request_id} in {response_time:.2f}s with intent: {intent}")

          return result

      except Exception as e:
          response_time = time.time() - start_time
          metrics.record_request("error", response_time, success=False)

          logger.error(f"Request {request_id} failed after {response_time:.2f}s: {str(e)}")
          raise
  \<close>
  The body of \<open>ProductionInvestmentGraph.invoke\<close>, under its decorator. \<open>base_graph\<close> is
  \<open>self.graph.invoke\<close>: its \<open>n\<close>-th call (counted by \<open>graph_calls\<close>) maps the input to
  the final state or raises, so that the same input may fail once and succeed later.
  The slice \<open>input_data.get('user_message', '')[:100]\<close> is taken before the \<open>try\<close>: a
  \<open>user_message\<close> that cannot be sliced raises \<open>TypeError\<close> there, and no request is
  recorded for it.
\<close>

definition not_subscriptable :: "string \<Rightarrow> exception" where
  "not_subscriptable type = Builtin ''TypeError'' ([CHR 0x27] @ type @ [CHR 0x27] @ '' object is not subscriptable'')"

definition first_100 :: "pyval \<Rightarrow> exception + pyval" where
  "first_100 v =
     (case v of
        VStr s \<Rightarrow> Inr (VStr (take 100 s))
      | VList xs \<Rightarrow> Inr (VList (take 100 xs))
      | VInt i \<Rightarrow> Inl (not_subscriptable ''int'')
      | VFloat x \<Rightarrow> Inl (not_subscriptable ''float'')
      | VNone \<Rightarrow> Inl (not_subscriptable ''NoneType''))"

definition graph_execution ::
  "(nat \<Rightarrow> pydict \<Rightarrow> exception + pydict) \<Rightarrow> pydict \<Rightarrow> world \<Rightarrow> (exception + pydict) \<times> world" where
  "graph_execution base_graph enhanced_input w =
     (case time_time w of
        (entered, w1) \<Rightarrow>
          (let outcome = base_graph (graph_calls w1) enhanced_input;
               w2 = w1\<lparr>graph_calls := graph_calls w1 + 1\<rparr>
           in case time_time w2 of
                (left, w3) \<Rightarrow> (outcome, record_component_time ''graph_execution'' (left - entered) w3)))"

definition enhanced_input :: "pydict \<Rightarrow> string \<Rightarrow> rat \<Rightarrow> pydict" where
  "enhanced_input input_data request_id started =
     AList.update ''timestamp'' (VFloat started) (AList.update ''request_id'' (VStr request_id) input_data)"

definition response_metadata :: "pydict \<Rightarrow> string \<Rightarrow> rat \<Rightarrow> pydict" where
  "response_metadata result request_id response_time =
     AList.update ''response_time'' (VFloat response_time) (AList.update ''request_id'' (VStr request_id) result)"

definition try_block ::
  "(nat \<Rightarrow> pydict \<Rightarrow> exception + pydict) \<Rightarrow> (pyval \<Rightarrow> string) \<Rightarrow> pydict \<Rightarrow> rat \<Rightarrow> string \<Rightarrow>
   world \<Rightarrow> (exception + pydict) \<times> world" where
  "try_block base_graph fmt input_data started request_id w =
     (case validate_input input_data w of
        (Inl e, w1) \<Rightarrow> (Inl e, w1)
      | (Inr u, w1) \<Rightarrow>
          (case graph_execution base_graph (enhanced_input input_data request_id started) w1 of
             (Inl e, w2) \<Rightarrow> (Inl e, w2)
           | (Inr result, w2) \<Rightarrow>
               (case time_time w2 of
                  (finished, w3) \<Rightarrow>
                    (let response_time = finished - started;
                         intent = lookup (VStr ''unknown'') result ''intent'';
                         w4 = record_request fmt intent response_time True w3
                     in (Inr (response_metadata result request_id response_time),
                         logger logger_info (Completed request_id response_time intent) w4)))))"

definition invoke_body ::
  "(nat \<Rightarrow> pydict \<Rightarrow> exception + pydict) \<Rightarrow> (pyval \<Rightarrow> string) \<Rightarrow> pydict \<Rightarrow>
   world \<Rightarrow> (exception + pydict) \<times> world" where
  "invoke_body base_graph fmt input_data w =
     (case time_time w of
        (started, w1) \<Rightarrow>
          (let w2 = w1\<lparr>request_count := request_count w1 + 1\<rparr>;
               request_id = ''req_'' @ str_int (int_of_float started) @ ''_'' @ str_int (request_count w2)
           in case first_100 (lookup (VStr []) input_data ''user_message'') of
                Inl e \<Rightarrow> (Inl e, w2)
              | Inr shown \<Rightarrow>
                  (case try_block base_graph fmt input_data started request_id
                          (logger logger_info (Processing request_id shown) w2) of
                     (Inr result, w3) \<Rightarrow> (Inr result, w3)
                   | (Inl e, w3) \<Rightarrow>
                       (case time_time w3 of
                          (failed, w4) \<Rightarrow>
                            (let response_time = failed - started;
                                 w5 = record_request fmt (VStr ''error'') response_time False w4
                             in (Inl e, logger logger_error (Failed request_id response_time (str_of e)) w5))))))"

definition fallback_response :: pydict where
  "fallback_response =
     [(''response'', VStr (''I apologize, but I'' @ [CHR 0x27] @
         ''m experiencing technical difficulties. Please try again in a moment.'')),
      (''intent'', VStr ''error''),
      (''confidence'', VFloat 0)]"

definition invoke ::
  "(nat \<Rightarrow> pydict \<Rightarrow> exception + pydict) \<Rightarrow> (pyval \<Rightarrow> string) \<Rightarrow> pydict \<Rightarrow>
   world \<Rightarrow> (exception + pydict) \<times> world" where
  "invoke base_graph fmt input_data =
     with_error_handling 2 1 (Some fallback_response) ''invoke'' (invoke_body base_graph fmt input_data)"

text \<open>
  \<^verbatim>\<open>
  def get_health_status(self) -> Dict[str, Any]:
      """Get system health status"""
      try:
          # Test basic functionality
          test_result = self.invoke({
              "user_message": "What is compound interest?",
              "conversation_history": []
          })

          api_healthy = test_result.get("intent") != "error"
      except:
          api_healthy = False

      metrics_summary = metrics.get_metrics_summary()

      return {
          "status": "healthy" if api_healthy else "unhealthy",
          "timestamp": time.time(),
          "uptime": metrics_summary["uptime_seconds"],
          "requests_processed": metrics_summary["requests"]["total"],
          "error_rate": metrics_summary["errors"]["rate"],
          "avg_response_time": metrics_summary["requests"]["avg_response_time"],
          "system_cpu": metrics_summary["system"]["cpu_usage"],
          "system_memory": metrics_summary["system"]["memory_usage"],
          "components": self.performance.get_component_stats()  # Use self.performance
      }
  \<close>
  \<open>get_health_status\<close> sends a test request through \<open>invoke\<close>, then reads the summary,
  the clock and the component statistics.
\<close>

record health_status =
  status :: string
  timestamp :: rat
  uptime :: rat
  requests_processed :: int
  error_rate :: rat
  avg_response_time :: rat
  system_cpu :: rat
  system_memory :: rat
  components :: "(string \<times> component_stats) list"

definition test_request :: pydict where
  "test_request = [(''user_message'', VStr ''What is compound interest?''), (''conversation_history'', VList [])]"

definition get_health_status ::
  "(nat \<Rightarrow> pydict \<Rightarrow> exception + pydict) \<Rightarrow> (pyval \<Rightarrow> string) \<Rightarrow> world \<Rightarrow> health_status \<times> world" where
  "get_health_status base_graph fmt w =
     (case invoke base_graph fmt test_request w of
        (outcome, w1) \<Rightarrow>
          (let api_healthy = (case outcome of
                                Inl e \<Rightarrow> False
                              | Inr test_result \<Rightarrow> map_of test_result ''intent'' \<noteq> Some (VStr ''error''))
           in case get_metrics_summary w1 of
                (summary, w2) \<Rightarrow>
                  (case time_time w2 of
                     (now, w3) \<Rightarrow>
                       (\<lparr> status = (if api_healthy then ''healthy'' else ''unhealthy''),
                          timestamp = now,
                          uptime = uptime_seconds summary,
                          requests_processed = requests_total summary,
                          error_rate = errors_rate summary,
                          avg_response_time = requests_avg_response_time summary,
                          system_cpu = system_cpu_usage summary,
                          system_memory = system_memory_usage summary,
                          components = get_component_stats w3 \<rparr>,
                        w3))))"

subsection \<open>The state at start-up and what the claims observe\<close>

text \<open>
  Importing the modules builds \<open>error_handler\<close>, \<open>metrics\<close> (whose \<open>start_time\<close> is the
  first reading of the clock, with the default \<open>window_size\<close> of 100), \<open>performance\<close>
  and \<open>production_graph\<close>.
\<close>

definition initial_world :: "(nat \<Rightarrow> rat) \<Rightarrow> world" where
  "initial_world c =
     \<lparr> clock = c, ticks = 1, slept = [], logs = [],
       error_handler = \<lparr> error_counts = [], error_patterns = [] \<rparr>,
       metrics_collector = \<lparr> window_size = 100, metrics = [], counters = [], start_time = c 0 \<rparr>,
       performance = \<lparr> component_metrics = [] \<rparr>,
       request_count = 0, graph_calls = 0 \<rparr>"

text \<open>
  A counter and a window of the collector, the measurements of a component, the sum
  of the error handler's frequencies, the records \<open>log_error\<close> wrote (level, type and
  message of each), the number of times a fallback was logged as used, and the most
  recent \<open>n\<close> entries of a list.
\<close>

definition counter :: "string \<Rightarrow> world \<Rightarrow> int" where
  "counter k w = lookup 0 (counters (metrics_collector w)) k"

definition window :: "string \<Rightarrow> world \<Rightarrow> rat list" where
  "window k w = lookup [] (metrics (metrics_collector w)) k"

definition measurements_of :: "string \<Rightarrow> world \<Rightarrow> (rat \<times> rat) list" where
  "measurements_of component w = lookup [] (component_metrics (performance w)) component"

definition errors_logged :: "world \<Rightarrow> int" where
  "errors_logged w = sum_list (map snd (error_counts (error_handler w)))"



fun is_UsingFallback :: "log_record \<Rightarrow> bool" where
  "is_UsingFallback (UsingFallback name) = True"
| "is_UsingFallback other = False"

definition fallbacks_used :: "world \<Rightarrow> nat" where
  "fallbacks_used w = length (filter is_UsingFallback (map snd (logs w)))"

definition newest :: "nat \<Rightarrow> 'a list \<Rightarrow> 'a list" where
  "newest n xs = drop (length xs - n) xs"

section \<open>Properties of routing and of the graph\<close>

lemma route_decision_cases:
  "route_decision s = ''profile_analyzer'' \<or> route_decision s = ''portfolio_builder'' \<or>
   route_decision s = ''market_researcher'' \<or> route_decision s = ''question_answerer''"
  by (simp add: route_decision_def Let_def)

lemma route_decision_stage: "route_decision s \<in> set stage_names"
  using route_decision_cases[of s] by (auto simp: stage_names_def)

lemma successor_router:
  "successor (graph fs) ''router'' s = Some (route_decision s)"
  using route_decision_cases[of s]
  by (auto simp: successor_def graph_def)

lemma stage_cases:
  "n \<in> set stage_names \<Longrightarrow>
   n = ''profile_analyzer'' \<or> n = ''portfolio_builder'' \<or> n = ''market_researcher'' \<or>
   n = ''question_answerer''"
  by (simp add: stage_names_def)

lemma successor_stage:
  assumes "n \<in> set stage_names"
  shows "successor (graph fs) n s = Some END"
  using stage_cases[OF assms]
  by (elim disjE) (simp_all add: successor_def graph_def)

lemma stage_not_END: "n \<in> set stage_names \<Longrightarrow> n \<noteq> END"
  by (drule stage_cases) (elim disjE, simp_all add: END_def)

lemma stage_not_router: "n \<in> set stage_names \<Longrightarrow> n \<noteq> ''router''"
  by (drule stage_cases) (elim disjE, simp_all)

lemma stage_node:
  assumes "n \<in> set stage_names"
  shows "\<exists>f. map_of (nodes (graph fs)) n = Some f"
  using stage_cases[OF assms]
  by (elim disjE) (simp_all add: graph_def)

lemma schema_of_graph: "state_schema (graph fs) = InvestmentState"
  by (simp add: graph_def)

lemma run_stage:
  assumes "n \<in> set stage_names"
  shows "\<exists>f. map_of (nodes (graph fs)) n = Some f \<and>
     run (graph fs) (Suc (Suc k)) n s visited =
       (case f s of Inl e \<Rightarrow> (Inl e, visited @ [n])
        | Inr upd \<Rightarrow> (Inr (channels InvestmentState (merge_update s upd)), visited @ [n]))"
proof -
  obtain f where f: "map_of (nodes (graph fs)) n = Some f" using stage_node[OF assms] by blast
  show ?thesis
    using f stage_not_END[OF assms] successor_stage[OF assms]
    by (auto simp: schema_of_graph split: sum.splits)
qed

lemma run_router:
  "run (graph fs) (Suc k) ''router'' s [] =
     (case router_fn fs s of
        Inl e \<Rightarrow> (Inl e, [''router''])
      | Inr upd \<Rightarrow> run (graph fs) k (route_decision (channels InvestmentState (merge_update s upd)))
                     (channels InvestmentState (merge_update s upd)) [''router''])"
proof -
  have "map_of (nodes (graph fs)) ''router'' = Some (router_fn fs)" "''router'' \<noteq> END"
    by (simp_all add: graph_def END_def)
  then show ?thesis
    by (simp add: successor_router schema_of_graph Let_def split: sum.splits)
qed

lemma investment_graph_unfold:
  "investment_graph fs s =
     (case router_fn fs (channels InvestmentState s) of
        Inl e \<Rightarrow> (Inl e, [''router''])
      | Inr upd \<Rightarrow>
          run (graph fs) (Suc (Suc 22))
            (route_decision (channels InvestmentState (merge_update (channels InvestmentState s) upd)))
            (channels InvestmentState (merge_update (channels InvestmentState s) upd)) [''router''])"
proof -
  have rl: "recursion_limit = Suc (Suc (Suc 22))" by (simp add: recursion_limit_def)
  have ep: "entry_point (graph fs) = ''router''" by (simp add: graph_def)
  show ?thesis
    unfolding investment_graph_def by (simp only: rl ep run_router schema_of_graph)
qed

lemma investment_graph_run:
  "investment_graph fs s =
     (case router_fn fs (channels InvestmentState s) of
        Inl e \<Rightarrow> (Inl e, [''router''])
      | Inr upd \<Rightarrow>
          (let routed = channels InvestmentState (merge_update (channels InvestmentState s) upd);
               stage = route_decision routed
           in case the (map_of (nodes (graph fs)) stage) routed of
                Inl e \<Rightarrow> (Inl e, [''router'', stage])
              | Inr result \<Rightarrow>
                  (Inr (channels InvestmentState (merge_update routed result)), [''router'', stage])))"
proof (cases "router_fn fs (channels InvestmentState s)")
  case (Inl e)
  then show ?thesis by (simp add: investment_graph_unfold)
next
  case (Inr upd)
  let ?routed = "channels InvestmentState (merge_update (channels InvestmentState s) upd)"
  obtain f where f: "map_of (nodes (graph fs)) (route_decision ?routed) = Some f"
    and r: "run (graph fs) (Suc (Suc 22)) (route_decision ?routed) ?routed [''router''] =
       (case f ?routed of Inl e \<Rightarrow> (Inl e, [''router''] @ [route_decision ?routed])
        | Inr u \<Rightarrow> (Inr (channels InvestmentState (merge_update ?routed u)),
                    [''router''] @ [route_decision ?routed]))"
    using run_stage[OF route_decision_stage, of fs ?routed 22 ?routed "[''router'']"] by blast
  show ?thesis
    by (simp only: investment_graph_unfold Inr sum.case r Let_def f option.sel append.simps)
qed

lemma stage_functions:
  "map_of (nodes (graph fs)) ''profile_analyzer'' = Some (profile_analyzer_node fs)"
  "map_of (nodes (graph fs)) ''portfolio_builder'' = Some (portfolio_builder_node fs)"
  "map_of (nodes (graph fs)) ''market_researcher'' = Some (market_researcher_node fs)"
  "map_of (nodes (graph fs)) ''question_answerer'' = Some (question_answerer_node fs)"
  by (simp_all add: graph_def)

lemma route_decision_default:
  "map_of s ''intent'' \<notin> {Some (VStr ''profile_analysis''), Some (VStr ''portfolio_creation''),
        Some (VStr ''market_research'')} \<Longrightarrow> route_decision s = ''question_answerer''"
  by (auto simp: route_decision_def Let_def split: option.splits)

lemma one_stage_visited:
  "length (filter (\<lambda>n. n \<in> set stage_names) (snd (investment_graph fs s))) \<le> 1"
proof -
  have r: "''router'' \<notin> set stage_names" by (simp add: stage_names_def)
  show ?thesis
    by (simp add: investment_graph_run Let_def r split: sum.splits)
qed

text \<open>
  C8. Exactly one stage executes in a run that completes. \<open>route_decision\<close> is total
  and returns one of the four stage names, \<open>question_answerer\<close> for any intent that is
  none of \<open>profile_analysis\<close>, \<open>portfolio_creation\<close>, \<open>market_research\<close> (also when
  the state has no intent), and under each stage name the graph holds that stage's
  function. A run of the graph is the router on the declared keys of the input, and, if
  the router returns, the function of the one stage that \<open>route_decision\<close> names on the
  state with the router's update written: when that function returns, the run returns the
  state with its update written and has run the router and that stage; when it raises,
  the run raises its exception; when the router raises, no stage runs. No run, completed
  or failed, runs more than one stage.
\<close>

theorem exactly_one_stage:
  "route_decision s \<in> set stage_names \<and>
   (map_of s ''intent'' \<notin> {Some (VStr ''profile_analysis''), Some (VStr ''portfolio_creation''),
        Some (VStr ''market_research'')} \<longrightarrow> route_decision s = ''question_answerer'') \<and>
   map_of (nodes (graph fs)) ''profile_analyzer'' = Some (profile_analyzer_node fs) \<and>
   map_of (nodes (graph fs)) ''portfolio_builder'' = Some (portfolio_builder_node fs) \<and>
   map_of (nodes (graph fs)) ''market_researcher'' = Some (market_researcher_node fs) \<and>
   map_of (nodes (graph fs)) ''question_answerer'' = Some (question_answerer_node fs) \<and>
   investment_graph fs s =
     (case router_fn fs (channels InvestmentState s) of
        Inl e \<Rightarrow> (Inl e, [''router''])
      | Inr upd \<Rightarrow>
          (let routed = channels InvestmentState (merge_update (channels InvestmentState s) upd);
               stage = route_decision routed
           in case the (map_of (nodes (graph fs)) stage) routed of
                Inl e \<Rightarrow> (Inl e, [''router'', stage])
              | Inr result \<Rightarrow>
                  (Inr (channels InvestmentState (merge_update routed result)), [''router'', stage]))) \<and>
   length (filter (\<lambda>n. n \<in> set stage_names) (snd (investment_graph fs s))) \<le> 1"
proof (intro conjI impI)
  show "route_decision s \<in> set stage_names"
    by (rule route_decision_stage)
next
  assume "map_of s ''intent'' \<notin> {Some (VStr ''profile_analysis''), Some (VStr ''portfolio_creation''),
        Some (VStr ''market_research'')}"
  then show "route_decision s = ''question_answerer''"
    by (rule route_decision_default)
next
  show "investment_graph fs s =
     (case router_fn fs (channels InvestmentState s) of
        Inl e \<Rightarrow> (Inl e, [''router''])
      | Inr upd \<Rightarrow>
          (let routed = channels InvestmentState (merge_update (channels InvestmentState s) upd);
               stage = route_decision routed
           in case the (map_of (nodes (graph fs)) stage) routed of
                Inl e \<Rightarrow> (Inl e, [''router'', stage])
              | Inr result \<Rightarrow>
                  (Inr (channels InvestmentState (merge_update routed result)), [''router'', stage])))"
    by (rule investment_graph_run)
next
  show "length (filter (\<lambda>n. n \<in> set stage_names) (snd (investment_graph fs s))) \<le> 1"
    by (rule one_stage_visited)
qed (rule stage_functions)+


theorem exactly_one_stage_witness:
  "investment_graph
      \<lparr>router_fn = router_node (\<lambda>m. Inr (VStr ''portfolio_creation|0.9'')) float_decimal,
       profile_analyzer_node = (\<lambda>s. Inr [(''risk_tolerance'', VStr ''moderate'')]),
       portfolio_builder_node = (\<lambda>s. Inr [(''builder_reasoning'', VStr ''balanced'')]),
       market_researcher_node = (\<lambda>s. Inr [(''stock_symbol'', VStr ''TSLA'')]),
       question_answerer_node = (\<lambda>s. Inr [(''response'', VStr ''answer'')])\<rparr>
      [(''user_message'', VStr ''Build me a portfolio''), (''request_id'', VStr ''req_1_1'')]
     = (Inr [(''user_message'', VStr ''Build me a portfolio''),
             (''intent'', VStr ''portfolio_creation''), (''confidence'', VFloat (9 / 10)),
             (''builder_reasoning'', VStr ''balanced'')],
        [''router'', ''portfolio_builder'']) \<and>
   route_decision [(''intent'', VStr ''astrology'')] = ''question_answerer''"
proof -
  let ?fs = "\<lparr>router_fn = router_node (\<lambda>m. Inr (VStr ''portfolio_creation|0.9'')) float_decimal,
       profile_analyzer_node = (\<lambda>s. Inr [(''risk_tolerance'', VStr ''moderate'')]),
       portfolio_builder_node = (\<lambda>s. Inr [(''builder_reasoning'', VStr ''balanced'')]),
       market_researcher_node = (\<lambda>s. Inr [(''stock_symbol'', VStr ''TSLA'')]),
       question_answerer_node = (\<lambda>s. Inr [(''response'', VStr ''answer'')])\<rparr>"
  let ?s = "[(''user_message'', VStr ''Build me a portfolio''), (''request_id'', VStr ''req_1_1'')]"
  let ?kept = "[(''user_message'', VStr ''Build me a portfolio'')]"
  let ?upd = "[(''intent'', VStr ''portfolio_creation''), (''confidence'', VFloat (9 / 10))]"
  let ?routed = "[(''user_message'', VStr ''Build me a portfolio''),
                  (''intent'', VStr ''portfolio_creation''), (''confidence'', VFloat (9 / 10))]"
  let ?out = "[(''user_message'', VStr ''Build me a portfolio''),
               (''intent'', VStr ''portfolio_creation''), (''confidence'', VFloat (9 / 10)),
               (''builder_reasoning'', VStr ''balanced'')]"
  have s0: "channels InvestmentState ?s = ?kept"
    by (simp add: InvestmentState_def)
  have r: "router_fn ?fs ?kept = Inr ?upd"
    by (simp add: router_node_def float_decimal_def strip_def isspace_def is_digit_def
        nat_of_digits_def)
  have routed: "channels InvestmentState (merge_update ?kept ?upd) = ?routed"
    by (simp add: InvestmentState_def merge_update_def)
  have d: "route_decision ?routed = ''portfolio_builder''"
    by (simp add: route_decision_def)
  have out: "channels InvestmentState (merge_update ?routed [(''builder_reasoning'', VStr ''balanced'')]) = ?out"
    by (simp add: InvestmentState_def merge_update_def)
  note t = exactly_one_stage[of ?s ?fs]
  note t' = exactly_one_stage[of "[(''intent'', VStr ''astrology'')]" ?fs]
  have pb: "the (map_of (nodes (graph ?fs)) ''portfolio_builder'') ?routed =
              Inr [(''builder_reasoning'', VStr ''balanced'')]"
    using t by simp
  have "investment_graph ?fs ?s = (Inr ?out, [''router'', ''portfolio_builder''])"
    using t by (simp only: s0 r sum.case routed Let_def d pb out)
  moreover have "route_decision [(''intent'', VStr ''astrology'')] = ''question_answerer''"
    using t' by simp
  ultimately show ?thesis by (rule conjI)
qed

section \<open>Properties of the router node\<close>

lemma router_node_reply:
  assumes "map_of state ''user_message'' = Some m" and "chain m = Inr content"
  shows "router_node chain float state =
    Inr (case content of
           VStr text \<Rightarrow>
             (case py_split CHR ''|'' (strip text) of
                [intent, confidence] \<Rightarrow>
                  (case float confidence of
                     Some c \<Rightarrow> [(''intent'', VStr intent), (''confidence'', VFloat c)]
                   | None \<Rightarrow> [(''intent'', VStr ''question_answering''), (''confidence'', VFloat (1 / 2))])
              | _ \<Rightarrow> [(''intent'', VStr ''question_answering''), (''confidence'', VFloat (1 / 2))])
         | _ \<Rightarrow> [(''intent'', VStr ''question_answering''), (''confidence'', VFloat (1 / 2))])"
  using assms
  by (simp add: router_node_def Let_def split: pyval.splits list.splits option.splits)

lemma router_node_Inr:
  assumes "router_node chain float state = Inr out"
  obtains m content where "map_of state ''user_message'' = Some m" and "chain m = Inr content"
  using assms
  by (auto simp: router_node_def split: option.splits sum.splits)

lemma merge_update_intent:
  "map_of (merge_update state [(''intent'', i), (''confidence'', c)]) ''intent'' = Some i"
  by (simp add: merge_update_def update_conv')

lemmas float_eval = float_decimal_def strip_def isspace_def is_digit_def nat_of_digits_def

text \<open>
  C7 (as stated). A reply with a label outside the four intents parses, so the
  fallback of the \<open>except\<close> branch is not taken: the label and the confidence of the
  reply are stored as they are, not \<open>question_answering\<close> and 0.5.
\<close>

theorem router_unrecognized_counterexample:
  "router_node (\<lambda>m. Inr (VStr ''crypto_trading|0.9'')) float_decimal
       [(''user_message'', VStr ''Should I buy bitcoin?'')]
     = Inr [(''intent'', VStr ''crypto_trading''), (''confidence'', VFloat (9 / 10))]"
  by (simp add: router_node_def float_eval)

text \<open>
  C7 (amended). For every reply of the classifier that does not parse (its content is
  not a string, or does not split at \<open>|\<close> into exactly two pieces, or \<open>float\<close> rejects
  the second piece), the router stores intent \<open>question_answering\<close> with confidence 0.5,
  and the request is routed to \<open>question_answerer\<close>. A reply that parses is stored as it
  is, label and confidence, whatever the label; when the label is none of
  \<open>profile_analysis\<close>, \<open>portfolio_creation\<close>, \<open>market_research\<close> the request is
  still routed to \<open>question_answerer\<close>.
\<close>

theorem router_fallback:
  assumes "map_of state ''user_message'' = Some m" and "chain m = Inr content"
  shows
    "(\<not> (\<exists>text i cs c. content = VStr text \<and> py_split CHR ''|'' (strip text) = [i, cs] \<and>
            float cs = Some c) \<longrightarrow>
        router_node chain float state =
          Inr [(''intent'', VStr ''question_answering''), (''confidence'', VFloat (1 / 2))]) \<and>
     route_decision (merge_update state
         [(''intent'', VStr ''question_answering''), (''confidence'', VFloat (1 / 2))])
       = ''question_answerer'' \<and>
     (\<forall>text i cs c. content = VStr text \<and> py_split CHR ''|'' (strip text) = [i, cs] \<and>
          float cs = Some c \<longrightarrow>
        router_node chain float state = Inr [(''intent'', VStr i), (''confidence'', VFloat c)] \<and>
        (i \<notin> {''profile_analysis'', ''portfolio_creation'', ''market_research''} \<longrightarrow>
           route_decision (merge_update state [(''intent'', VStr i), (''confidence'', VFloat c)])
             = ''question_answerer''))"
proof (intro conjI impI allI)
  assume "\<not> (\<exists>text i cs c. content = VStr text \<and> py_split CHR ''|'' (strip text) = [i, cs] \<and>
            float cs = Some c)"
  then show "router_node chain float state =
          Inr [(''intent'', VStr ''question_answering''), (''confidence'', VFloat (1 / 2))]"
    by (auto simp: router_node_reply[of state m chain content float, OF assms] split: pyval.splits list.splits option.splits)
next
  show "route_decision (merge_update state
         [(''intent'', VStr ''question_answering''), (''confidence'', VFloat (1 / 2))])
       = ''question_answerer''"
    by (simp add: route_decision_def merge_update_intent)
next
  fix reply i cs c
  assume p: "content = VStr reply \<and> py_split CHR ''|'' (strip reply) = [i, cs] \<and> float cs = Some c"
  then show "router_node chain float state = Inr [(''intent'', VStr i), (''confidence'', VFloat c)]"
    by (simp add: router_node_reply[of state m chain content float, OF assms])
  assume "i \<notin> {''profile_analysis'', ''portfolio_creation'', ''market_research''}"
  then show "route_decision (merge_update state [(''intent'', VStr i), (''confidence'', VFloat c)])
             = ''question_answerer''"
    by (simp add: route_decision_def merge_update_intent)
qed

theorem router_fallback_witness:
  "router_node (\<lambda>m. Inr (VStr ''I think this is market research'')) float_decimal
       [(''user_message'', VStr ''How is Tesla performing?'')]
     = Inr [(''intent'', VStr ''question_answering''), (''confidence'', VFloat (1 / 2))] \<and>
   router_node (\<lambda>m. Inr (VStr ''forex|0.7'')) float_decimal
       [(''user_message'', VStr ''How is Tesla performing?'')]
     = Inr [(''intent'', VStr ''forex''), (''confidence'', VFloat (7 / 10))] \<and>
   route_decision (merge_update [(''user_message'', VStr ''How is Tesla performing?'')]
       [(''intent'', VStr ''forex''), (''confidence'', VFloat (7 / 10))]) = ''question_answerer''"
proof -
  let ?state = "[(''user_message'', VStr ''How is Tesla performing?'')]"
  have um: "map_of ?state ''user_message'' = Some (VStr ''How is Tesla performing?'')" by simp
  have s1: "py_split CHR ''|'' (strip ''I think this is market research'')
      = [''I think this is market research'']"
    by (simp add: strip_def isspace_def)
  have s2: "py_split CHR ''|'' (strip ''forex|0.7'') = [''forex'', ''0.7'']"
    by (simp add: strip_def isspace_def)
  have f2: "float_decimal ''0.7'' = Some (7 / 10)" by (simp add: float_eval)
  have a: "router_node (\<lambda>m. Inr (VStr ''I think this is market research'')) float_decimal ?state
     = Inr [(''intent'', VStr ''question_answering''), (''confidence'', VFloat (1 / 2))]"
    using router_fallback[OF um, of "\<lambda>m. Inr (VStr ''I think this is market research'')"
        "VStr ''I think this is market research''" float_decimal] s1
    by simp
  have b: "router_node (\<lambda>m. Inr (VStr ''forex|0.7'')) float_decimal ?state
     = Inr [(''intent'', VStr ''forex''), (''confidence'', VFloat (7 / 10))] \<and>
     route_decision (merge_update ?state [(''intent'', VStr ''forex''), (''confidence'', VFloat (7 / 10))])
       = ''question_answerer''"
    using router_fallback[OF um, of "\<lambda>m. Inr (VStr ''forex|0.7'')" "VStr ''forex|0.7''" float_decimal]
      s2 f2
    by simp
  from a b show ?thesis by simp
qed

text \<open>
  C9 (as stated). Nothing clamps: a reply whose second piece reads 1.5 is stored with
  confidence 1.5.
\<close>

theorem router_confidence_counterexample:
  "router_node (\<lambda>m. Inr (VStr ''question_answering|1.5'')) float_decimal
       [(''user_message'', VStr ''What is a P/E ratio?'')]
     = Inr [(''intent'', VStr ''question_answering''), (''confidence'', VFloat (3 / 2))] \<and>
   \<not> (3 / 2 \<le> (1 :: rat))"
  by (simp add: router_node_def float_eval)

text \<open>
  C9 (amended). For every reply of the classifier, the confidence stored in the router's
  output is 0.5 when the reply does not parse, and otherwise exactly the number \<open>float\<close>
  reads from the reply's second piece, unchanged: it lies in \<open>[0, 1]\<close> exactly when that
  number does.
\<close>

theorem router_confidence_unclamped:
  assumes "map_of state ''user_message'' = Some m" and "chain m = Inr content"
  shows
    "\<exists>out. router_node chain float state = Inr out \<and>
       (\<forall>text i cs c. content = VStr text \<and> py_split CHR ''|'' (strip text) = [i, cs] \<and>
            float cs = Some c \<longrightarrow> map_of out ''confidence'' = Some (VFloat c)) \<and>
       (\<not> (\<exists>text i cs c. content = VStr text \<and> py_split CHR ''|'' (strip text) = [i, cs] \<and>
            float cs = Some c) \<longrightarrow> map_of out ''confidence'' = Some (VFloat (1 / 2)))"
proof (cases "\<exists>text j cs c'. content = VStr text \<and> py_split CHR ''|'' (strip text) = [j, cs] \<and>
              float cs = Some c'")
  case True
  then obtain reply j cs c' where p: "content = VStr reply"
      "py_split CHR ''|'' (strip reply) = [j, cs]" "float cs = Some c'"
    by blast
  then have "router_node chain float state = Inr [(''intent'', VStr j), (''confidence'', VFloat c')]"
    by (simp add: router_node_reply[of state m chain content float, OF assms])
  with True p show ?thesis by auto
next
  case False
  then have "router_node chain float state =
      Inr [(''intent'', VStr ''question_answering''), (''confidence'', VFloat (1 / 2))]"
    by (auto simp: router_node_reply[of state m chain content float, OF assms]
        split: pyval.splits list.splits option.splits)
  with False show ?thesis by auto
qed

theorem router_confidence_unclamped_witness:
  "\<exists>out. router_node (\<lambda>m. Inr (VStr ''market_research|0.85'')) float_decimal
             [(''user_message'', VStr ''How is Tesla performing?'')] = Inr out \<and>
         map_of out ''confidence'' = Some (VFloat (17 / 20))"
proof -
  let ?state = "[(''user_message'', VStr ''How is Tesla performing?'')]"
  let ?reply = "''market_research|0.85''"
  have um: "map_of ?state ''user_message'' = Some (VStr ''How is Tesla performing?'')" by simp
  have s: "py_split CHR ''|'' (strip ?reply) = [''market_research'', ''0.85'']"
    by (simp add: strip_def isspace_def)
  have f: "float_decimal ''0.85'' = Some (17 / 20)" by (simp add: float_eval)
  obtain out where o: "router_node (\<lambda>m. Inr (VStr ?reply)) float_decimal ?state = Inr out"
    and u: "\<forall>text i cs c. VStr ?reply = VStr text \<and> py_split CHR ''|'' (strip text) = [i, cs] \<and>
            float_decimal cs = Some c \<longrightarrow> map_of out ''confidence'' = Some (VFloat c)"
    using router_confidence_unclamped[OF um, of "\<lambda>m. Inr (VStr ?reply)" "VStr ?reply" float_decimal]
    by blast
  have "map_of out ''confidence'' = Some (VFloat (17 / 20))"
    using u[rule_format, of ?reply "''market_research''" "''0.85''" "17 / 20"] s f by blast
  with o show ?thesis by blast
qed

section \<open>Properties of the rate limiter\<close>



lemma rate_limit_check_disabled:
  "\<not> api_key_required cfg \<Longrightarrow> rate_limit_check cfg uid now rt = (Inr (), rt)"
  by (simp add: rate_limit_check_def)








section \<open>Properties of the production layer\<close>

subsection \<open>Dictionaries, counters and windows\<close>

lemma lookup_update:
  "lookup d (AList.update k v xs) k' = (if k' = k then v else lookup d xs k')"
  by (simp add: lookup_def update_conv')


lemma lookup_increment:
  "lookup 0 (increment k cs) k' = (if k' = k then lookup 0 cs k + 1 else lookup 0 cs k')"
  by (simp add: increment_def lookup_update)

lemma lookup_touch:
  "lookup d (touch d k xs) k' = lookup d xs k'"
  by (auto simp: lookup_def touch_def map_add_def split: option.splits)

lemma lookup_touches:
  "lookup d (fold (touch d) ks xs) k' = lookup d xs k'"
  by (induction ks arbitrary: xs) (simp_all add: lookup_touch)

lemma lookup_append_metric:
  "lookup [] (append_metric n k x ms) k' =
     (if k' = k then newest n (lookup [] ms k @ [x]) else lookup [] ms k')"
  by (simp add: append_metric_def lookup_update deque_append_def newest_def)

lemma newest_append:
  "newest n (newest n xs @ ys) = newest n (xs @ ys)"
  by (cases "length xs \<le> n") (simp_all add: newest_def add.commute)

lemma newest_empty:
  "newest n xs = [] \<longleftrightarrow> xs = [] \<or> n = 0"
  by (cases xs) (auto simp: newest_def)

lemma sum_increment:
  "sum_list (map snd (increment k cs)) = sum_list (map snd cs) + 1"
proof -
  have "sum_list (map snd (AList.update k (lookup 0 cs k + v) cs)) = sum_list (map snd cs) + v" for v
    by (induction cs) (auto simp: lookup_def)
  thus ?thesis by (simp add: increment_def)
qed

subsection \<open>What each operation changes\<close>

lemma time_time_fields [simp]:
  "slept (snd (time_time w)) = slept w"
  "logs (snd (time_time w)) = logs w"
  "error_handler (snd (time_time w)) = error_handler w"
  "metrics_collector (snd (time_time w)) = metrics_collector w"
  "performance (snd (time_time w)) = performance w"
  "request_count (snd (time_time w)) = request_count w"
  "graph_calls (snd (time_time w)) = graph_calls w"
  "clock (snd (time_time w)) = clock w"
  "ticks (snd (time_time w)) = ticks w + 1"
  "fst (time_time w) = clock w (ticks w)"
  by (simp_all add: time_time_def)

lemma logger_fields [simp]:
  "slept (logger l x w) = slept w"
  "logs (logger l x w) = logs w @ [(l, x)]"
  "error_handler (logger l x w) = error_handler w"
  "metrics_collector (logger l x w) = metrics_collector w"
  "performance (logger l x w) = performance w"
  "request_count (logger l x w) = request_count w"
  "graph_calls (logger l x w) = graph_calls w"
  "clock (logger l x w) = clock w"
  "ticks (logger l x w) = ticks w"
  by (simp_all add: logger_def)

lemma sleep_fields [simp]:
  "logs (snd (sleep s w)) = logs w"
  "error_handler (snd (sleep s w)) = error_handler w"
  "metrics_collector (snd (sleep s w)) = metrics_collector w"
  "performance (snd (sleep s w)) = performance w"
  "request_count (snd (sleep s w)) = request_count w"
  "graph_calls (snd (sleep s w)) = graph_calls w"
  "clock (snd (sleep s w)) = clock w"
  "ticks (snd (sleep s w)) = ticks w"
  by (simp_all add: sleep_def)


lemma log_error_fields [simp]:
  "slept (log_error e ctx w) = slept w"
  "logs (log_error e ctx w) = logs w @ [(level_of e, ErrorInfo (type_name e) (str_of e) (clock w (ticks w)) ctx)]"
  "error_counts (error_handler (log_error e ctx w)) = increment (error_key e) (error_counts (error_handler w))"
  "metrics_collector (log_error e ctx w) = metrics_collector w"
  "performance (log_error e ctx w) = performance w"
  "request_count (log_error e ctx w) = request_count w"
  "graph_calls (log_error e ctx w) = graph_calls w"
  "clock (log_error e ctx w) = clock w"
  "ticks (log_error e ctx w) = ticks w + 1"
  by (simp_all add: log_error_def split_beta Let_def)

lemma record_request_fields [simp]:
  "slept (record_request fmt i rt ok w) = slept w"
  "logs (record_request fmt i rt ok w) = logs w"
  "error_handler (record_request fmt i rt ok w) = error_handler w"
  "performance (record_request fmt i rt ok w) = performance w"
  "request_count (record_request fmt i rt ok w) = request_count w"
  "graph_calls (record_request fmt i rt ok w) = graph_calls w"
  "clock (record_request fmt i rt ok w) = clock w"
  "ticks (record_request fmt i rt ok w) = ticks w + 1"
  "window_size (metrics_collector (record_request fmt i rt ok w)) = window_size (metrics_collector w)"
  "start_time (metrics_collector (record_request fmt i rt ok w)) = start_time (metrics_collector w)"
  by (simp_all add: record_request_def split_beta Let_def)

lemma record_request_counters:
  "counters (metrics_collector (record_request fmt i rt ok w)) =
     increment (if ok then ''successful_requests'' else ''failed_requests'')
       (increment (''intent_'' @ format fmt i)
          (increment ''total_requests'' (counters (metrics_collector w))))"
  by (simp add: record_request_def split_beta Let_def)

lemma record_request_metrics:
  "metrics (metrics_collector (record_request fmt i rt ok w)) =
     append_metric (window_size (metrics_collector w)) ''requests_per_minute'' (clock w (ticks w))
       (append_metric (window_size (metrics_collector w)) ''response_times'' rt
          (metrics (metrics_collector w)))"
  by (simp add: record_request_def split_beta Let_def)

lemma record_component_time_fields [simp]:
  "slept (record_component_time c d w) = slept w"
  "logs (record_component_time c d w) = logs w"
  "error_handler (record_component_time c d w) = error_handler w"
  "metrics_collector (record_component_time c d w) = metrics_collector w"
  "request_count (record_component_time c d w) = request_count w"
  "graph_calls (record_component_time c d w) = graph_calls w"
  "clock (record_component_time c d w) = clock w"
  "ticks (record_component_time c d w) = ticks w + 1"
  by (simp_all add: record_component_time_def split_beta Let_def)

lemma record_component_time_measurements:
  "measurements_of c' (record_component_time c d w) =
     (if c' = c then newest 100 (measurements_of c w @ [(d, clock w (ticks w))])
      else measurements_of c' w)"
  by (simp add: record_component_time_def split_beta Let_def measurements_of_def lookup_update newest_def)

subsection \<open>One attempt of invoke\<close>

lemma counter_simps:
  "counter k (snd (time_time w)) = counter k w"
  "counter k (logger l x w) = counter k w"
  "counter k (snd (sleep s w)) = counter k w"
  "counter k (log_error e ctx w) = counter k w"
  "counter k (record_component_time c d w) = counter k w"
  by (simp_all add: counter_def)

lemma counter_record_request:
  "\<not> startswith k ''intent_'' \<Longrightarrow>
   counter k (record_request fmt i rt ok w) =
     counter k w + (if k = ''total_requests'' then 1 else 0)
                 + (if k = (if ok then ''successful_requests'' else ''failed_requests'') then 1 else 0)"
  by (auto simp: counter_def record_request_counters lookup_increment startswith_def)


lemma window_simps:
  "window k (snd (time_time w)) = window k w"
  "window k (logger l x w) = window k w"
  "window k (snd (sleep s w)) = window k w"
  "window k (log_error e ctx w) = window k w"
  "window k (record_component_time c d w) = window k w"
  by (simp_all add: window_def)

lemma window_record_request:
  "window ''response_times'' (record_request fmt i rt ok w) =
     newest (window_size (metrics_collector w)) (window ''response_times'' w @ [rt])"
  "window ''requests_per_minute'' (record_request fmt i rt ok w) =
     newest (window_size (metrics_collector w)) (window ''requests_per_minute'' w @ [clock w (ticks w)])"
  by (simp_all add: window_def record_request_metrics lookup_append_metric)

lemma measurements_simps:
  "measurements_of c (snd (time_time w)) = measurements_of c w"
  "measurements_of c (logger l x w) = measurements_of c w"
  "measurements_of c (snd (sleep s w)) = measurements_of c w"
  "measurements_of c (log_error e ctx w) = measurements_of c w"
  "measurements_of c (record_request fmt i rt ok w) = measurements_of c w"
  by (simp_all add: measurements_of_def)

lemma fallbacks_simps:
  "fallbacks_used (snd (time_time w)) = fallbacks_used w"
  "fallbacks_used (snd (sleep s w)) = fallbacks_used w"
  "fallbacks_used (log_error e ctx w) = fallbacks_used w"
  "fallbacks_used (record_request fmt i rt ok w) = fallbacks_used w"
  "fallbacks_used (record_component_time c d w) = fallbacks_used w"
  "fallbacks_used (logger l x w) = fallbacks_used w + (if is_UsingFallback x then 1 else 0)"
  by (simp_all add: fallbacks_used_def)

lemma errors_logged_simps:
  "errors_logged (snd (time_time w)) = errors_logged w"
  "errors_logged (snd (sleep s w)) = errors_logged w"
  "errors_logged (logger l x w) = errors_logged w"
  "errors_logged (record_request fmt i rt ok w) = errors_logged w"
  "errors_logged (record_component_time c d w) = errors_logged w"
  "errors_logged (log_error e ctx w) = errors_logged w + 1"
  by (simp_all add: errors_logged_def sum_increment)

lemma observed_after_counting:
  "counter k (w\<lparr>graph_calls := n\<rparr>) = counter k w"
  "counter k (w\<lparr>request_count := i\<rparr>) = counter k w"
  "window k (w\<lparr>graph_calls := n\<rparr>) = window k w"
  "window k (w\<lparr>request_count := i\<rparr>) = window k w"
  "measurements_of c (w\<lparr>graph_calls := n\<rparr>) = measurements_of c w"
  "measurements_of c (w\<lparr>request_count := i\<rparr>) = measurements_of c w"
  "fallbacks_used (w\<lparr>graph_calls := n\<rparr>) = fallbacks_used w"
  "fallbacks_used (w\<lparr>request_count := i\<rparr>) = fallbacks_used w"
  "errors_logged (w\<lparr>graph_calls := n\<rparr>) = errors_logged w"
  "errors_logged (w\<lparr>request_count := i\<rparr>) = errors_logged w"
  by (simp_all add: counter_def window_def measurements_of_def fallbacks_used_def errors_logged_def)

lemmas observed = counter_simps window_simps measurements_simps fallbacks_simps errors_logged_simps
  observed_after_counting

lemma validate_input_fields [simp]:
  "slept (snd (validate_input inp w)) = slept w"
  "logs (snd (validate_input inp w)) = logs w"
  "error_handler (snd (validate_input inp w)) = error_handler w"
  "metrics_collector (snd (validate_input inp w)) = metrics_collector w"
  "performance (snd (validate_input inp w)) = performance w"
  "request_count (snd (validate_input inp w)) = request_count w"
  "graph_calls (snd (validate_input inp w)) = graph_calls w"
  "clock (snd (validate_input inp w)) = clock w"
  by (simp_all add: validate_input_def new_ValidationError_def split: option.splits pyval.splits)

lemma validate_input_ok:
  "map_of inp ''user_message'' = Some (VStr s) \<Longrightarrow> strip s \<noteq> [] \<Longrightarrow> length s \<le> 1000 \<Longrightarrow>
   validate_input inp w = (Inr (), w)"
  by (simp add: validate_input_def)

lemma validate_input_rejects:
  "map_of inp ''user_message'' = Some (VStr s) \<Longrightarrow> strip s = [] \<or> 1000 < length s \<Longrightarrow>
   fst (validate_input inp w) =
     Inl (Assistant ValidationError
            (if strip s = [] then ''user_message cannot be empty''
             else ''user_message too long (max 1000 characters)'') MEDIUM)"
  by (auto simp: validate_input_def new_ValidationError_def)

lemma validate_input_raises:
  "fst (validate_input inp w) = Inl e \<Longrightarrow> is_ValidationError e"
  by (auto simp: validate_input_def new_ValidationError_def split: option.splits pyval.splits if_splits)

lemma graph_execution_fields [simp]:
  "fst (graph_execution g x w) = g (graph_calls w) x"
  "slept (snd (graph_execution g x w)) = slept w"
  "logs (snd (graph_execution g x w)) = logs w"
  "error_handler (snd (graph_execution g x w)) = error_handler w"
  "metrics_collector (snd (graph_execution g x w)) = metrics_collector w"
  "request_count (snd (graph_execution g x w)) = request_count w"
  "graph_calls (snd (graph_execution g x w)) = graph_calls w + 1"
  "clock (snd (graph_execution g x w)) = clock w"
  by (simp_all add: graph_execution_def split_beta Let_def)

lemma graph_execution_measurements:
  "measurements_of ''graph_execution'' (snd (graph_execution g x w)) =
     newest 100 (measurements_of ''graph_execution'' w @
       [(clock w (ticks w + 1) - clock w (ticks w), clock w (ticks w + 2))])"
  by (simp add: graph_execution_def split_beta Let_def record_component_time_measurements observed)

lemma graph_execution_observed:
  "counter k (snd (graph_execution g x w)) = counter k w"
  "window k (snd (graph_execution g x w)) = window k w"
  "fallbacks_used (snd (graph_execution g x w)) = fallbacks_used w"
  "errors_logged (snd (graph_execution g x w)) = errors_logged w"
  by (simp_all add: counter_def window_def fallbacks_used_def errors_logged_def)

lemma validate_input_observed:
  "counter k (snd (validate_input inp w)) = counter k w"
  "window k (snd (validate_input inp w)) = window k w"
  "measurements_of c (snd (validate_input inp w)) = measurements_of c w"
  "fallbacks_used (snd (validate_input inp w)) = fallbacks_used w"
  "errors_logged (snd (validate_input inp w)) = errors_logged w"
  by (simp_all add: counter_def window_def measurements_of_def fallbacks_used_def errors_logged_def)

lemma try_block_fields [simp]:
  "slept (snd (try_block g fmt inp st rid w)) = slept w"
  "error_handler (snd (try_block g fmt inp st rid w)) = error_handler w"
  "request_count (snd (try_block g fmt inp st rid w)) = request_count w"
  "clock (snd (try_block g fmt inp st rid w)) = clock w"
  "window_size (metrics_collector (snd (try_block g fmt inp st rid w))) = window_size (metrics_collector w)"
  "start_time (metrics_collector (snd (try_block g fmt inp st rid w))) = start_time (metrics_collector w)"
  by (simp_all add: try_block_def split_beta Let_def split: sum.splits)

lemma try_block_graph_calls:
  "graph_calls (snd (try_block g fmt inp st rid w)) =
     graph_calls w + (if isl (fst (validate_input inp w)) then 0 else 1)"
  by (simp add: try_block_def split_beta Let_def split: sum.splits)

lemma try_block_fallbacks:
  "fallbacks_used (snd (try_block g fmt inp st rid w)) = fallbacks_used w"
  by (simp add: try_block_def split_beta Let_def observed graph_execution_observed validate_input_observed
      split: sum.splits)

lemma try_block_errors_logged:
  "errors_logged (snd (try_block g fmt inp st rid w)) = errors_logged w"
  by (simp add: errors_logged_def)

lemma try_block_counter:
  "\<not> startswith k ''intent_'' \<Longrightarrow>
   counter k (snd (try_block g fmt inp st rid w)) =
     counter k w + (if \<not> isl (fst (try_block g fmt inp st rid w)) \<and>
                       (k = ''total_requests'' \<or> k = ''successful_requests'') then 1 else 0)"
  by (simp add: try_block_def split_beta Let_def observed graph_execution_observed validate_input_observed
        counter_record_request split: sum.splits)

lemma try_block_window:
  "k = ''response_times'' \<or> k = ''requests_per_minute'' \<Longrightarrow>
   if isl (fst (try_block g fmt inp st rid w)) then window k (snd (try_block g fmt inp st rid w)) = window k w
   else \<exists>x. window k (snd (try_block g fmt inp st rid w)) =
              newest (window_size (metrics_collector w)) (window k w @ [x])"
  by (auto simp: try_block_def split_beta Let_def observed graph_execution_observed validate_input_observed
        window_record_request split: sum.splits)

lemma try_block_measurements:
  "if isl (fst (validate_input inp w))
   then measurements_of ''graph_execution'' (snd (try_block g fmt inp st rid w)) = measurements_of ''graph_execution'' w
   else \<exists>m. measurements_of ''graph_execution'' (snd (try_block g fmt inp st rid w)) =
              newest 100 (measurements_of ''graph_execution'' w @ [m])"
  by (auto simp: try_block_def split_beta Let_def observed graph_execution_measurements validate_input_observed
        split: sum.splits)

lemma try_block_outcome:
  "validate_input inp w = (Inr (), w) \<Longrightarrow>
   \<exists>rt. fst (try_block g fmt inp st rid w) =
     (case g (graph_calls w) (enhanced_input inp rid st) of
        Inl e \<Rightarrow> Inl e
      | Inr res \<Rightarrow> Inr (response_metadata res rid rt))"
  by (cases "g (graph_calls w) (enhanced_input inp rid st)")
     (auto simp: try_block_def split_beta Let_def split: sum.splits)

lemma try_block_rejects:
  "fst (validate_input inp w) = Inl e \<Longrightarrow> fst (try_block g fmt inp st rid w) = Inl e"
  by (simp add: try_block_def split_beta Let_def split: sum.splits prod.splits)

lemma first_100_string:
  "map_of inp ''user_message'' = Some (VStr s) \<Longrightarrow>
   first_100 (lookup (VStr []) inp ''user_message'') = Inr (VStr (take 100 s))"
  by (simp add: first_100_def lookup_def)

lemma invoke_body_fields [simp]:
  "slept (snd (invoke_body g fmt inp w)) = slept w"
  "error_handler (snd (invoke_body g fmt inp w)) = error_handler w"
  "request_count (snd (invoke_body g fmt inp w)) = request_count w + 1"
  "clock (snd (invoke_body g fmt inp w)) = clock w"
  "window_size (metrics_collector (snd (invoke_body g fmt inp w))) = window_size (metrics_collector w)"
  "start_time (metrics_collector (snd (invoke_body g fmt inp w))) = start_time (metrics_collector w)"
  by (simp_all add: invoke_body_def split_beta Let_def split: sum.splits)

lemma invoke_body_fallbacks:
  "fallbacks_used (snd (invoke_body g fmt inp w)) = fallbacks_used w"
  by (simp add: invoke_body_def split_beta Let_def observed try_block_fallbacks split: sum.splits)

lemma invoke_body_errors_logged:
  "errors_logged (snd (invoke_body g fmt inp w)) = errors_logged w"
  by (simp add: errors_logged_def)

text \<open>Only the request counters and the counters of intents are ever written.\<close>

lemma invoke_body_other_counters:
  "\<not> startswith k ''intent_'' \<Longrightarrow>
   k \<notin> {''total_requests'', ''successful_requests'', ''failed_requests''} \<Longrightarrow>
   counter k (snd (invoke_body g fmt inp w)) = counter k w"
  by (simp add: invoke_body_def split_beta Let_def observed try_block_counter counter_record_request
      split: sum.splits)

text \<open>A request whose message can be sliced is recorded once, as a success or as a failure.\<close>

lemma invoke_body_counters:
  assumes "first_100 (lookup (VStr []) inp ''user_message'') = Inr shown"
  shows "counter ''total_requests'' (snd (invoke_body g fmt inp w)) = counter ''total_requests'' w + 1"
    and "counter ''failed_requests'' (snd (invoke_body g fmt inp w)) =
           counter ''failed_requests'' w + (if isl (fst (invoke_body g fmt inp w)) then 1 else 0)"
    and "counter ''successful_requests'' (snd (invoke_body g fmt inp w)) =
           counter ''successful_requests'' w + (if isl (fst (invoke_body g fmt inp w)) then 0 else 1)"
  using assms
  by (simp_all add: invoke_body_def split_beta Let_def observed try_block_counter counter_record_request
      startswith_def split: sum.splits)

lemma invoke_body_window:
  assumes "first_100 (lookup (VStr []) inp ''user_message'') = Inr shown"
    and "k = ''response_times'' \<or> k = ''requests_per_minute''"
  shows "\<exists>x. window k (snd (invoke_body g fmt inp w)) =
              newest (window_size (metrics_collector w)) (window k w @ [x])"
proof -
  let ?st = "clock w (ticks w)"
  let ?rid = "''req_'' @ str_int (int_of_float ?st) @ ''_'' @ str_int (request_count w + 1)"
  let ?w2 = "logger logger_info (Processing ?rid shown) ((snd (time_time w))\<lparr>request_count := request_count w + 1\<rparr>)"
  let ?tb = "try_block g fmt inp ?st ?rid ?w2"
  have w2: "window k ?w2 = window k w" "window_size (metrics_collector ?w2) = window_size (metrics_collector w)"
    by (simp_all add: observed)
  note tbw = try_block_window[OF assms(2), of g fmt inp ?st ?rid ?w2]
  show ?thesis
  proof (cases "fst ?tb")
    case (Inl e)
    with tbw have "window k (snd ?tb) = window k w" by (simp only: w2 sum.disc if_True)
    with assms Inl show ?thesis
      by (auto simp: invoke_body_def split_beta Let_def observed window_record_request)
  next
    case (Inr r)
    with tbw have "\<exists>x. window k (snd ?tb) = newest (window_size (metrics_collector w)) (window k w @ [x])"
      by (simp only: w2 sum.disc if_False)
    with assms Inr show ?thesis
      by (simp add: invoke_body_def split_beta Let_def)
  qed
qed

lemma invoke_body_valid:
  assumes "map_of inp ''user_message'' = Some (VStr s)" and "strip s \<noteq> []" and "length s \<le> 1000"
  shows "graph_calls (snd (invoke_body g fmt inp w)) = graph_calls w + 1"
    and "\<exists>x rid rt. fst (invoke_body g fmt inp w) =
           (case g (graph_calls w) x of
              Inl e \<Rightarrow> Inl e
            | Inr res \<Rightarrow> Inr (response_metadata res rid rt))"
    and "\<exists>m. measurements_of ''graph_execution'' (snd (invoke_body g fmt inp w)) =
           newest 100 (measurements_of ''graph_execution'' w @ [m])"
proof -
  let ?st = "clock w (ticks w)"
  let ?rid = "''req_'' @ str_int (int_of_float ?st) @ ''_'' @ str_int (request_count w + 1)"
  let ?w2 = "logger logger_info (Processing ?rid (VStr (take 100 s))) ((snd (time_time w))\<lparr>request_count := request_count w + 1\<rparr>)"
  let ?tb = "try_block g fmt inp ?st ?rid ?w2"
  note sliced = first_100_string[OF assms(1)]
  note ok = validate_input_ok[OF assms, of ?w2]
  have calls: "graph_calls (snd ?tb) = graph_calls w + 1"
    by (simp add: try_block_graph_calls validate_input_ok[OF assms])
  show "graph_calls (snd (invoke_body g fmt inp w)) = graph_calls w + 1"
    using calls by (simp add: invoke_body_def split_beta Let_def sliced split: sum.splits)
  from try_block_outcome[OF ok, of g fmt ?st ?rid]
  obtain rt where "fst ?tb = (case g (graph_calls w) (enhanced_input inp ?rid ?st) of
                                Inl e \<Rightarrow> Inl e | Inr res \<Rightarrow> Inr (response_metadata res ?rid rt))"
    by auto
  hence "fst (invoke_body g fmt inp w) =
           (case g (graph_calls w) (enhanced_input inp ?rid ?st) of
              Inl e \<Rightarrow> Inl e | Inr res \<Rightarrow> Inr (response_metadata res ?rid rt))"
    by (simp add: invoke_body_def split_beta Let_def sliced split: sum.splits)
  thus "\<exists>x rid rt. fst (invoke_body g fmt inp w) =
           (case g (graph_calls w) x of
              Inl e \<Rightarrow> Inl e
            | Inr res \<Rightarrow> Inr (response_metadata res rid rt))"
    by blast
  from try_block_measurements[of inp ?w2 g fmt ?st ?rid]
  obtain m where m: "measurements_of ''graph_execution'' (snd ?tb) =
                    newest 100 (measurements_of ''graph_execution'' w @ [m])"
    by (auto simp: validate_input_ok[OF assms] observed)
  have same: "measurements_of ''graph_execution'' (snd (invoke_body g fmt inp w)) =
              measurements_of ''graph_execution'' (snd ?tb)"
    by (simp add: invoke_body_def split_beta Let_def sliced observed split: sum.splits)
  show "\<exists>m. measurements_of ''graph_execution'' (snd (invoke_body g fmt inp w)) =
           newest 100 (measurements_of ''graph_execution'' w @ [m])"
    by (rule exI[where x = m]) (simp only: same m)
qed

lemma invoke_body_rejects:
  assumes "map_of inp ''user_message'' = Some (VStr s)" and "strip s = [] \<or> 1000 < length s"
  shows "fst (invoke_body g fmt inp w) =
           Inl (Assistant ValidationError
                  (if strip s = [] then ''user_message cannot be empty''
                   else ''user_message too long (max 1000 characters)'') MEDIUM)"
    and "graph_calls (snd (invoke_body g fmt inp w)) = graph_calls w"
proof -
  let ?st = "clock w (ticks w)"
  let ?rid = "''req_'' @ str_int (int_of_float ?st) @ ''_'' @ str_int (request_count w + 1)"
  let ?w2 = "logger logger_info (Processing ?rid (VStr (take 100 s))) ((snd (time_time w))\<lparr>request_count := request_count w + 1\<rparr>)"
  let ?tb = "try_block g fmt inp ?st ?rid ?w2"
  let ?e = "Assistant ValidationError
                  (if strip s = [] then ''user_message cannot be empty''
                   else ''user_message too long (max 1000 characters)'') MEDIUM"
  note sliced = first_100_string[OF assms(1)]
  note bad = validate_input_rejects[OF assms, of ?w2]
  have tb: "fst ?tb = Inl ?e"
    by (rule try_block_rejects[OF bad])
  have calls: "graph_calls (snd ?tb) = graph_calls w"
    by (simp add: try_block_graph_calls validate_input_rejects[OF assms])
  show "fst (invoke_body g fmt inp w) = Inl ?e"
    using tb by (simp add: invoke_body_def split_beta Let_def sliced split: sum.splits)
  show "graph_calls (snd (invoke_body g fmt inp w)) = graph_calls w"
    using tb calls by (simp add: invoke_body_def split_beta Let_def sliced split: sum.splits)
qed




subsection \<open>The retry loop\<close>

lemma attempts_validation:
  assumes "func w = (Inl e, w1)" and "is_ValidationError e"
  shows "attempts r d name func (a # later) last_exception w =
           (Broke last_exception, log_error e [(''function'', VStr name)] w1)"
  using assms by simp



lemma attempts_failed:
  assumes "func w = (Inl e, w1)" and "\<not> is_ValidationError e" and "a < r"
  shows "attempts r d name func (a # later) last_exception w =
           (case fst (sleep (if is_ModelTimeoutError e then d * 2 ^ nat a else d)
                        (log_error e [(''attempt'', VInt a), (''function'', VStr name)] w1)) of
              Inl raised \<Rightarrow>
                (Raised raised,
                 snd (sleep (if is_ModelTimeoutError e then d * 2 ^ nat a else d)
                        (log_error e [(''attempt'', VInt a), (''function'', VStr name)] w1)))
            | Inr u \<Rightarrow>
                attempts r d name func later (Some e)
                  (snd (sleep (if is_ModelTimeoutError e then d * 2 ^ nat a else d)
                          (log_error e [(''attempt'', VInt a), (''function'', VStr name)] w1))))"
  using assms by (simp add: Let_def split_beta split del: if_split)


lemma fallback_response_truthy:
  "\<exists>item items. fallback_response = item # items"
  by (simp add: fallback_response_def)






subsection \<open>The metrics summary\<close>

lemma get_metrics_summary_reads:
  "requests_total (fst (get_metrics_summary w)) = counter ''total_requests'' w"
  "requests_successful (fst (get_metrics_summary w)) = counter ''successful_requests'' w"
  "requests_failed (fst (get_metrics_summary w)) = counter ''failed_requests'' w"
  "errors_total (fst (get_metrics_summary w)) = counter ''total_errors'' w"
  "errors_rate (fst (get_metrics_summary w)) =
     of_int (counter ''total_errors'' w) / of_int (max (counter ''total_requests'' w) 1)"
  "requests_avg_response_time (fst (get_metrics_summary w)) =
     (if window ''response_times'' w = [] then 0
      else sum_list (window ''response_times'' w) / of_nat (length (window ''response_times'' w)))"
  "uptime_seconds (fst (get_metrics_summary w)) = clock w (ticks w) - start_time (metrics_collector w)"
  by (simp_all add: get_metrics_summary_def split_beta Let_def counter_def window_def lookup_touches lookup_touch
      del: fold_simps)

lemma get_metrics_summary_fields [simp]:
  "slept (snd (get_metrics_summary w)) = slept w"
  "logs (snd (get_metrics_summary w)) = logs w"
  "error_handler (snd (get_metrics_summary w)) = error_handler w"
  "performance (snd (get_metrics_summary w)) = performance w"
  "request_count (snd (get_metrics_summary w)) = request_count w"
  "graph_calls (snd (get_metrics_summary w)) = graph_calls w"
  "clock (snd (get_metrics_summary w)) = clock w"
  "ticks (snd (get_metrics_summary w)) = ticks w + 1"
  "window_size (metrics_collector (snd (get_metrics_summary w))) = window_size (metrics_collector w)"
  "start_time (metrics_collector (snd (get_metrics_summary w))) = start_time (metrics_collector w)"
  by (simp_all add: get_metrics_summary_def split_beta Let_def del: fold_simps)

lemma get_metrics_summary_observed:
  "counter k (snd (get_metrics_summary w)) = counter k w"
  "window k (snd (get_metrics_summary w)) = window k w"
  "measurements_of c (snd (get_metrics_summary w)) = measurements_of c w"
  by (simp_all add: get_metrics_summary_def split_beta Let_def counter_def window_def measurements_of_def
        lookup_touches lookup_touch del: fold_simps)

lemma counters_after_requests:
  "counter ''total_errors'' (fold (\<lambda>(intent, response_time, success). record_request fmt intent response_time success) calls w) =
     counter ''total_errors'' w"
  "counter ''total_requests'' (fold (\<lambda>(intent, response_time, success). record_request fmt intent response_time success) calls w) =
     counter ''total_requests'' w + int (length calls)"
  "counter ''failed_requests'' (fold (\<lambda>(intent, response_time, success). record_request fmt intent response_time success) calls w) =
     counter ''failed_requests'' w + int (length (filter (\<lambda>(intent, response_time, success). \<not> success) calls))"
  by (induction calls arbitrary: w; simp add: split_beta counter_record_request startswith_def)+

lemma initial_counters:
  "counter k (initial_world c) = 0"
  by (simp add: counter_def initial_world_def lookup_def)

subsection \<open>Failing a number of times, then succeeding\<close>


subsection \<open>What every run of the loop preserves\<close>

lemma attempts_related:
  assumes ok: "\<And>n w1. R n w1 \<Longrightarrow> \<not> isl (fst (func w1)) \<Longrightarrow> R (Suc n) (snd (func w1))"
    and failed: "\<And>n w1 e ctx. R n w1 \<Longrightarrow> fst (func w1) = Inl e \<Longrightarrow> R (Suc n) (log_error e ctx (snd (func w1)))"
    and paused: "\<And>n w1 s. R n w1 \<Longrightarrow> R n (snd (sleep s w1))"
  shows "R m w \<Longrightarrow>
         \<exists>n. m \<le> n \<and> (as \<noteq> [] \<longrightarrow> m < n) \<and> n \<le> m + length as \<and>
             R n (snd (attempts r d name func as last_exception w))"
proof (induction as arbitrary: m w last_exception)
  case Nil
  thus ?case by auto
next
  case (Cons a later)
  obtain out w1 where f: "func w = (out, w1)" by (cases "func w")
  show ?case
  proof (cases out)
    case (Inr v)
    have "R (Suc m) w1" using ok[OF Cons.prems, unfolded f] Inr by simp
    moreover have "attempts r d name func (a # later) last_exception w = (Returned v, w1)"
      using f Inr by simp
    ultimately show ?thesis by (intro exI[of _ "Suc m"]) simp
  next
    case (Inl e)
    have logged: "R (Suc m) (log_error e ctx w1)" for ctx
      using failed[OF Cons.prems, unfolded f, of e ctx] Inl by simp
    let ?w2 = "log_error e [(''attempt'', VInt a), (''function'', VStr name)] w1"
    let ?sl = "sleep (if is_ModelTimeoutError e then d * 2 ^ nat a else d) ?w2"
    consider (validation) "is_ValidationError e"
      | (last_attempt) "\<not> is_ValidationError e" "\<not> a < r"
      | (raised) "\<not> is_ValidationError e" "a < r" "isl (fst ?sl)"
      | (again) "\<not> is_ValidationError e" "a < r" "\<not> isl (fst ?sl)"
      by blast
    thus ?thesis
    proof cases
      case validation
      hence "attempts r d name func (a # later) last_exception w =
               (Broke last_exception, log_error e [(''function'', VStr name)] w1)"
        using f Inl by simp
      with logged show ?thesis by (intro exI[of _ "Suc m"]) simp
    next
      case last_attempt
      hence "attempts r d name func (a # later) last_exception w = (Broke (Some e), ?w2)"
        using f Inl by (simp add: Let_def)
      with logged show ?thesis by (intro exI[of _ "Suc m"]) simp
    next
      case raised
      then obtain x where "fst ?sl = Inl x" by (cases "fst ?sl") simp_all
      hence "attempts r d name func (a # later) last_exception w = (Raised x, snd ?sl)"
        using attempts_failed[of func w e w1 a r d name later last_exception] f Inl raised(1,2)
        by (simp split del: if_split)
      with paused[OF logged] show ?thesis by (intro exI[of _ "Suc m"]) simp
    next
      case again
      then obtain u where "fst ?sl = Inr u" by (cases "fst ?sl") simp_all
      hence step: "attempts r d name func (a # later) last_exception w =
                   attempts r d name func later (Some e) (snd ?sl)"
        using attempts_failed[of func w e w1 a r d name later last_exception] f Inl again(1,2)
        by (simp split del: if_split)
      from Cons.IH[OF paused[OF logged], where last_exception = "Some e"]
      obtain n where "Suc m \<le> n" "n \<le> Suc m + length later"
        "R n (snd (attempts r d name func later (Some e) (snd ?sl)))"
        by blast
      thus ?thesis unfolding step by (intro exI[of _ n]) simp
    qed
  qed
qed

lemma with_error_handling_related:
  assumes ok: "\<And>n w1. R n w1 \<Longrightarrow> \<not> isl (fst (func w1)) \<Longrightarrow> R (Suc n) (snd (func w1))"
    and failed: "\<And>n w1 e ctx. R n w1 \<Longrightarrow> fst (func w1) = Inl e \<Longrightarrow> R (Suc n) (log_error e ctx (snd (func w1)))"
    and paused: "\<And>n w1 s. R n w1 \<Longrightarrow> R n (snd (sleep s w1))"
    and logged: "\<And>n w1 l x. R n w1 \<Longrightarrow> R n (logger l x w1)"
    and start: "R 0 w"
  shows "\<exists>n. (0 \<le> r \<longrightarrow> 1 \<le> n) \<and> int n \<le> max (r + 1) 0 \<and>
             R n (snd (with_error_handling r d fallback name func w))"
proof -
  from attempts_related[of R func 0 w "[0..r]" r d name None, OF ok failed paused start]
  obtain n where n: "[0..r] \<noteq> [] \<longrightarrow> 0 < n" "n \<le> length [0..r]"
    and R: "R n (snd (attempts r d name func [0..r] None w))"
    by auto
  obtain x w1 where a: "attempts r d name func [0..r] None w = (x, w1)"
    by (cases "attempts r d name func [0..r] None w")
  from R a have R1: "R n w1" by simp
  have "snd (with_error_handling r d fallback name func w) = w1 \<or>
        snd (with_error_handling r d fallback name func w) = logger logger_warning (UsingFallback name) w1"
    unfolding with_error_handling_def a
    by (cases x) (simp_all split: option.splits list.splits)
  hence "R n (snd (with_error_handling r d fallback name func w))"
    using R1 logged[OF R1] by auto
  moreover have "0 \<le> r \<longrightarrow> 1 \<le> n" using n(1) by (auto simp: upto_rec1)
  moreover have "int n \<le> max (r + 1) 0" using n(2) by simp
  ultimately show ?thesis by blast
qed


lemma wrapped_other_counters:
  assumes "\<not> startswith k ''intent_''"
    and "k \<notin> {''total_requests'', ''successful_requests'', ''failed_requests''}"
  shows "counter k (snd (with_error_handling r d fallback name (invoke_body g fmt inp) w)) = counter k w"
proof -
  have "\<exists>n. (0 \<le> r \<longrightarrow> 1 \<le> n) \<and> int n \<le> max (r + 1) 0 \<and>
          counter k (snd (with_error_handling r d fallback name (invoke_body g fmt inp) w)) = counter k w"
    by (rule with_error_handling_related[where R = "\<lambda>n w'. counter k w' = counter k w"])
       (simp_all add: observed invoke_body_other_counters[OF assms])
  thus ?thesis by blast
qed

lemma wrapped_failures_balance:
  assumes "first_100 (lookup (VStr []) inp ''user_message'') = Inr shown"
  shows "counter ''failed_requests'' (snd (with_error_handling r d fallback name (invoke_body g fmt inp) w))
           - errors_logged (snd (with_error_handling r d fallback name (invoke_body g fmt inp) w)) =
         counter ''failed_requests'' w - errors_logged w"
proof -
  have "\<exists>n. (0 \<le> r \<longrightarrow> 1 \<le> n) \<and> int n \<le> max (r + 1) 0 \<and>
          counter ''failed_requests'' (snd (with_error_handling r d fallback name (invoke_body g fmt inp) w))
            - errors_logged (snd (with_error_handling r d fallback name (invoke_body g fmt inp) w)) =
          counter ''failed_requests'' w - errors_logged w"
  proof (rule with_error_handling_related[where
        R = "\<lambda>n w'. counter ''failed_requests'' w' - errors_logged w' = counter ''failed_requests'' w - errors_logged w"])
    fix n w1
    assume "counter ''failed_requests'' w1 - errors_logged w1 = counter ''failed_requests'' w - errors_logged w"
      and "\<not> isl (fst (invoke_body g fmt inp w1))"
    thus "counter ''failed_requests'' (snd (invoke_body g fmt inp w1)) - errors_logged (snd (invoke_body g fmt inp w1)) =
          counter ''failed_requests'' w - errors_logged w"
      by (simp add: invoke_body_counters(2)[OF assms] invoke_body_errors_logged)
  next
    fix n w1 e ctx
    assume "counter ''failed_requests'' w1 - errors_logged w1 = counter ''failed_requests'' w - errors_logged w"
      and "fst (invoke_body g fmt inp w1) = Inl e"
    thus "counter ''failed_requests'' (log_error e ctx (snd (invoke_body g fmt inp w1)))
            - errors_logged (log_error e ctx (snd (invoke_body g fmt inp w1))) =
          counter ''failed_requests'' w - errors_logged w"
      by (simp add: observed invoke_body_counters(2)[OF assms] invoke_body_errors_logged)
  qed (simp_all add: observed)
  thus ?thesis by blast
qed

subsection \<open>The failures of a run, one by one\<close>







subsection \<open>A run of invoke on a valid request, and the health check\<close>

lemma extend_newest:
  assumes "if n = 0 then v1 = v else \<exists>xs. length xs = n \<and> v1 = newest m (v @ xs)"
    and "v2 = newest m (v1 @ [x])"
  shows "\<exists>xs. length xs = Suc n \<and> v2 = newest m (v @ xs)"
proof (cases "n = 0")
  case True
  with assms have "v2 = newest m (v @ [x])" by simp
  thus ?thesis using True by (intro exI[of _ "[x]"]) simp
next
  case False
  with assms(1) obtain xs where xs: "length xs = n" "v1 = newest m (v @ xs)" by auto
  hence "v2 = newest m (v @ (xs @ [x]))"
    using assms(2) newest_append[of m "v @ xs" "[x]"] by simp
  thus ?thesis using xs(1) by (intro exI[of _ "xs @ [x]"]) simp
qed

lemma wrapped_attempts_counted:
  assumes "map_of inp ''user_message'' = Some (VStr s)" and "strip s \<noteq> []" and "length s \<le> 1000"
  shows "\<exists>n. (0 \<le> r \<longrightarrow> 1 \<le> n) \<and> int n \<le> max (r + 1) 0 \<and>
           request_count (snd (with_error_handling r d fallback name (invoke_body g fmt inp) w)) =
             request_count w + int n \<and>
           counter ''total_requests'' (snd (with_error_handling r d fallback name (invoke_body g fmt inp) w)) =
             counter ''total_requests'' w + int n \<and>
           graph_calls (snd (with_error_handling r d fallback name (invoke_body g fmt inp) w)) =
             graph_calls w + n \<and>
           window_size (metrics_collector (snd (with_error_handling r d fallback name (invoke_body g fmt inp) w))) =
             window_size (metrics_collector w) \<and>
           start_time (metrics_collector (snd (with_error_handling r d fallback name (invoke_body g fmt inp) w))) =
             start_time (metrics_collector w)"
  by (rule with_error_handling_related[where
        R = "\<lambda>n w'. request_count w' = request_count w + int n \<and>
                     counter ''total_requests'' w' = counter ''total_requests'' w + int n \<and>
                     graph_calls w' = graph_calls w + n \<and>
                     window_size (metrics_collector w') = window_size (metrics_collector w) \<and>
                     start_time (metrics_collector w') = start_time (metrics_collector w)"])
     (simp_all add: observed invoke_body_counters(1)[OF first_100_string[OF assms(1)]]
        invoke_body_valid(1)[OF assms])

lemma wrapped_window:
  assumes "map_of inp ''user_message'' = Some (VStr s)"
    and "k = ''response_times'' \<or> k = ''requests_per_minute''"
  shows "\<exists>n. (0 \<le> r \<longrightarrow> 1 \<le> n) \<and> int n \<le> max (r + 1) 0 \<and>
           (request_count (snd (with_error_handling r d fallback name (invoke_body g fmt inp) w)) =
              request_count w + int n \<and>
            window_size (metrics_collector (snd (with_error_handling r d fallback name (invoke_body g fmt inp) w))) =
              window_size (metrics_collector w) \<and>
            (if n = 0
             then window k (snd (with_error_handling r d fallback name (invoke_body g fmt inp) w)) = window k w
             else \<exists>xs. length xs = n \<and>
                    window k (snd (with_error_handling r d fallback name (invoke_body g fmt inp) w)) =
                      newest (window_size (metrics_collector w)) (window k w @ xs)))"
proof (rule with_error_handling_related[where
        R = "\<lambda>n w'. request_count w' = request_count w + int n \<and>
                     window_size (metrics_collector w') = window_size (metrics_collector w) \<and>
                     (if n = 0 then window k w' = window k w
                      else \<exists>xs. length xs = n \<and>
                             window k w' = newest (window_size (metrics_collector w)) (window k w @ xs))"])
  note sliced = first_100_string[OF assms(1)]
  have step: "\<exists>xs. length xs = Suc n \<and>
                window k (snd (invoke_body g fmt inp w1)) =
                  newest (window_size (metrics_collector w)) (window k w @ xs)"
    if "window_size (metrics_collector w1) = window_size (metrics_collector w)"
      and "if n = 0 then window k w1 = window k w
           else \<exists>xs. length xs = n \<and> window k w1 = newest (window_size (metrics_collector w)) (window k w @ xs)"
    for n w1
  proof -
    from invoke_body_window[OF sliced assms(2), of g fmt w1] that(1)
    obtain x where "window k (snd (invoke_body g fmt inp w1)) =
                      newest (window_size (metrics_collector w)) (window k w1 @ [x])"
      by auto
    from extend_newest[OF that(2) this] show ?thesis .
  qed
  {
    fix n w1
    assume "request_count w1 = request_count w + int n \<and>
            window_size (metrics_collector w1) = window_size (metrics_collector w) \<and>
            (if n = 0 then window k w1 = window k w
             else \<exists>xs. length xs = n \<and>
                    window k w1 = newest (window_size (metrics_collector w)) (window k w @ xs))"
    thus "request_count (snd (invoke_body g fmt inp w1)) = request_count w + int (Suc n) \<and>
          window_size (metrics_collector (snd (invoke_body g fmt inp w1))) = window_size (metrics_collector w) \<and>
          (if Suc n = 0 then window k (snd (invoke_body g fmt inp w1)) = window k w
           else \<exists>xs. length xs = Suc n \<and>
                  window k (snd (invoke_body g fmt inp w1)) =
                    newest (window_size (metrics_collector w)) (window k w @ xs))"
      using step[of w1 n] by simp
  next
    fix n w1 e ctx
    assume "request_count w1 = request_count w + int n \<and>
            window_size (metrics_collector w1) = window_size (metrics_collector w) \<and>
            (if n = 0 then window k w1 = window k w
             else \<exists>xs. length xs = n \<and>
                    window k w1 = newest (window_size (metrics_collector w)) (window k w @ xs))"
    thus "request_count (log_error e ctx (snd (invoke_body g fmt inp w1))) = request_count w + int (Suc n) \<and>
          window_size (metrics_collector (log_error e ctx (snd (invoke_body g fmt inp w1)))) =
            window_size (metrics_collector w) \<and>
          (if Suc n = 0 then window k (log_error e ctx (snd (invoke_body g fmt inp w1))) = window k w
           else \<exists>xs. length xs = Suc n \<and>
                  window k (log_error e ctx (snd (invoke_body g fmt inp w1))) =
                    newest (window_size (metrics_collector w)) (window k w @ xs))"
      using step[of w1 n] by (simp add: observed)
  }
qed (simp_all add: observed)

lemma wrapped_measurements:
  assumes "map_of inp ''user_message'' = Some (VStr s)" and "strip s \<noteq> []" and "length s \<le> 1000"
  shows "\<exists>n. (0 \<le> r \<longrightarrow> 1 \<le> n) \<and> int n \<le> max (r + 1) 0 \<and>
           (request_count (snd (with_error_handling r d fallback name (invoke_body g fmt inp) w)) =
              request_count w + int n \<and>
            (if n = 0
             then measurements_of ''graph_execution'' (snd (with_error_handling r d fallback name (invoke_body g fmt inp) w)) =
                    measurements_of ''graph_execution'' w
             else \<exists>ms. length ms = n \<and>
                    measurements_of ''graph_execution'' (snd (with_error_handling r d fallback name (invoke_body g fmt inp) w)) =
                      newest 100 (measurements_of ''graph_execution'' w @ ms)))"
proof (rule with_error_handling_related[where
        R = "\<lambda>n w'. request_count w' = request_count w + int n \<and>
                     (if n = 0 then measurements_of ''graph_execution'' w' = measurements_of ''graph_execution'' w
                      else \<exists>ms. length ms = n \<and>
                             measurements_of ''graph_execution'' w' =
                               newest 100 (measurements_of ''graph_execution'' w @ ms))"])
  have step: "\<exists>ms. length ms = Suc n \<and>
                measurements_of ''graph_execution'' (snd (invoke_body g fmt inp w1)) =
                  newest 100 (measurements_of ''graph_execution'' w @ ms)"
    if "if n = 0 then measurements_of ''graph_execution'' w1 = measurements_of ''graph_execution'' w
        else \<exists>ms. length ms = n \<and>
               measurements_of ''graph_execution'' w1 = newest 100 (measurements_of ''graph_execution'' w @ ms)"
    for n w1
  proof -
    from invoke_body_valid(3)[OF assms, of g fmt w1]
    obtain m where "measurements_of ''graph_execution'' (snd (invoke_body g fmt inp w1)) =
                      newest 100 (measurements_of ''graph_execution'' w1 @ [m])"
      by blast
    from extend_newest[OF that this] show ?thesis .
  qed
  {
    fix n w1
    assume "request_count w1 = request_count w + int n \<and>
            (if n = 0 then measurements_of ''graph_execution'' w1 = measurements_of ''graph_execution'' w
             else \<exists>ms. length ms = n \<and>
                    measurements_of ''graph_execution'' w1 = newest 100 (measurements_of ''graph_execution'' w @ ms))"
    thus "request_count (snd (invoke_body g fmt inp w1)) = request_count w + int (Suc n) \<and>
          (if Suc n = 0
           then measurements_of ''graph_execution'' (snd (invoke_body g fmt inp w1)) = measurements_of ''graph_execution'' w
           else \<exists>ms. length ms = Suc n \<and>
                  measurements_of ''graph_execution'' (snd (invoke_body g fmt inp w1)) =
                    newest 100 (measurements_of ''graph_execution'' w @ ms))"
      using step[of n w1] by simp
  next
    fix n w1 e ctx
    assume "request_count w1 = request_count w + int n \<and>
            (if n = 0 then measurements_of ''graph_execution'' w1 = measurements_of ''graph_execution'' w
             else \<exists>ms. length ms = n \<and>
                    measurements_of ''graph_execution'' w1 = newest 100 (measurements_of ''graph_execution'' w @ ms))"
    thus "request_count (log_error e ctx (snd (invoke_body g fmt inp w1))) = request_count w + int (Suc n) \<and>
          (if Suc n = 0
           then measurements_of ''graph_execution'' (log_error e ctx (snd (invoke_body g fmt inp w1))) =
                  measurements_of ''graph_execution'' w
           else \<exists>ms. length ms = Suc n \<and>
                  measurements_of ''graph_execution'' (log_error e ctx (snd (invoke_body g fmt inp w1))) =
                    newest 100 (measurements_of ''graph_execution'' w @ ms))"
      using step[of n w1] by (simp add: observed)
  }
qed (simp_all add: observed)

lemma test_request_valid:
  "map_of test_request ''user_message'' = Some (VStr ''What is compound interest?'')"
  "strip ''What is compound interest?'' \<noteq> []"
  "length ''What is compound interest?'' \<le> 1000"
  by (simp_all add: test_request_def strip_def isspace_def)

lemma get_health_status_world:
  "request_count (snd (get_health_status g fmt w)) = request_count (snd (invoke g fmt test_request w))"
  "graph_calls (snd (get_health_status g fmt w)) = graph_calls (snd (invoke g fmt test_request w))"
  "counter k (snd (get_health_status g fmt w)) = counter k (snd (invoke g fmt test_request w))"
  "window k (snd (get_health_status g fmt w)) = window k (snd (invoke g fmt test_request w))"
  "measurements_of c (snd (get_health_status g fmt w)) = measurements_of c (snd (invoke g fmt test_request w))"
  "window_size (metrics_collector (snd (get_health_status g fmt w))) =
     window_size (metrics_collector (snd (invoke g fmt test_request w)))"
  "start_time (metrics_collector (snd (get_health_status g fmt w))) =
     start_time (metrics_collector (snd (invoke g fmt test_request w)))"
  by (simp_all add: get_health_status_def split_beta Let_def observed get_metrics_summary_observed)

lemma get_health_status_reads:
  "requests_processed (fst (get_health_status g fmt w)) =
     counter ''total_requests'' (snd (invoke g fmt test_request w))"
  "error_rate (fst (get_health_status g fmt w)) =
     of_int (counter ''total_errors'' (snd (invoke g fmt test_request w))) /
     of_int (max (counter ''total_requests'' (snd (invoke g fmt test_request w))) 1)"
  "avg_response_time (fst (get_health_status g fmt w)) =
     (if window ''response_times'' (snd (invoke g fmt test_request w)) = [] then 0
      else sum_list (window ''response_times'' (snd (invoke g fmt test_request w))) /
           of_nat (length (window ''response_times'' (snd (invoke g fmt test_request w)))))"
  by (simp_all add: get_health_status_def split_beta Let_def get_metrics_summary_reads)

lemma probe_run:
  "\<exists>n. 1 \<le> n \<and> n \<le> 3 \<and>
     request_count (snd (invoke g fmt test_request w)) = request_count w + int n \<and>
     counter ''total_requests'' (snd (invoke g fmt test_request w)) = counter ''total_requests'' w + int n \<and>
     graph_calls (snd (invoke g fmt test_request w)) = graph_calls w + n \<and>
     window_size (metrics_collector (snd (invoke g fmt test_request w))) = window_size (metrics_collector w) \<and>
     start_time (metrics_collector (snd (invoke g fmt test_request w))) = start_time (metrics_collector w) \<and>
     (\<exists>xs. length xs = n \<and>
        window ''response_times'' (snd (invoke g fmt test_request w)) =
          newest (window_size (metrics_collector w)) (window ''response_times'' w @ xs)) \<and>
     (\<exists>ts. length ts = n \<and>
        window ''requests_per_minute'' (snd (invoke g fmt test_request w)) =
          newest (window_size (metrics_collector w)) (window ''requests_per_minute'' w @ ts)) \<and>
     (\<exists>ms. length ms = n \<and>
        measurements_of ''graph_execution'' (snd (invoke g fmt test_request w)) =
          newest 100 (measurements_of ''graph_execution'' w @ ms))"
proof -
  let ?w' = "snd (invoke g fmt test_request w)"
  note v = test_request_valid
  from wrapped_attempts_counted[OF v, of 2 1 "Some fallback_response" "''invoke''" g fmt w]
  obtain n where n: "1 \<le> n" "n \<le> 3"
    and c: "request_count ?w' = request_count w + int n"
      "counter ''total_requests'' ?w' = counter ''total_requests'' w + int n"
      "graph_calls ?w' = graph_calls w + n"
      "window_size (metrics_collector ?w') = window_size (metrics_collector w)"
      "start_time (metrics_collector ?w') = start_time (metrics_collector w)"
    unfolding invoke_def by auto
  from wrapped_window[OF v(1), of "''response_times''" 2 1 "Some fallback_response" "''invoke''" g fmt w]
  obtain n1 where "request_count ?w' = request_count w + int n1"
    and "if n1 = 0 then window ''response_times'' ?w' = window ''response_times'' w
         else \<exists>xs. length xs = n1 \<and> window ''response_times'' ?w' =
                newest (window_size (metrics_collector w)) (window ''response_times'' w @ xs)"
    unfolding invoke_def by auto
  with c(1) n(1) have rt: "\<exists>xs. length xs = n \<and> window ''response_times'' ?w' =
                newest (window_size (metrics_collector w)) (window ''response_times'' w @ xs)"
    by (cases "n1 = n") auto
  from wrapped_window[OF v(1), of "''requests_per_minute''" 2 1 "Some fallback_response" "''invoke''" g fmt w]
  obtain n2 where "request_count ?w' = request_count w + int n2"
    and "if n2 = 0 then window ''requests_per_minute'' ?w' = window ''requests_per_minute'' w
         else \<exists>xs. length xs = n2 \<and> window ''requests_per_minute'' ?w' =
                newest (window_size (metrics_collector w)) (window ''requests_per_minute'' w @ xs)"
    unfolding invoke_def by auto
  with c(1) n(1) have rpm: "\<exists>ts. length ts = n \<and> window ''requests_per_minute'' ?w' =
                newest (window_size (metrics_collector w)) (window ''requests_per_minute'' w @ ts)"
    by (cases "n2 = n") auto
  from wrapped_measurements[OF v, of 2 1 "Some fallback_response" "''invoke''" g fmt w]
  obtain n3 where "request_count ?w' = request_count w + int n3"
    and "if n3 = 0 then measurements_of ''graph_execution'' ?w' = measurements_of ''graph_execution'' w
         else \<exists>ms. length ms = n3 \<and> measurements_of ''graph_execution'' ?w' =
                newest 100 (measurements_of ''graph_execution'' w @ ms)"
    unfolding invoke_def by auto
  with c(1) n(1) have ms: "\<exists>ms. length ms = n \<and> measurements_of ''graph_execution'' ?w' =
                newest 100 (measurements_of ''graph_execution'' w @ ms)"
    by (cases "n3 = n") auto
  from n c rt rpm ms show ?thesis by blast
qed

section \<open>Claims about the production layer\<close>

text \<open>
  C1. A request whose text is empty after trimming, or longer than 1000 characters,
  is classified as a \<open>ValidationError\<close> on the first attempt and is not retried: one
  attempt is made, the base graph is not called and nothing sleeps. But the caller
  does not receive the rejection: the handler of \<open>ValidationError\<close> leaves the loop
  without assigning \<open>last_exception\<close>, and \<open>invoke\<close> returns the fallback response
  \<open>with_error_handling\<close> was configured with, logging that it did so.
\<close>

theorem invalid_request_gets_fallback:
  assumes "map_of inp ''user_message'' = Some (VStr s)"
    and "strip s = [] \<or> 1000 < length s"
  shows "fst (invoke g fmt inp w) = Inr fallback_response \<and>
         request_count (snd (invoke g fmt inp w)) = request_count w + 1 \<and>
         graph_calls (snd (invoke g fmt inp w)) = graph_calls w \<and>
         slept (snd (invoke g fmt inp w)) = slept w \<and>
         errors_logged (snd (invoke g fmt inp w)) = errors_logged w + 1 \<and>
         counter ''failed_requests'' (snd (invoke g fmt inp w)) = counter ''failed_requests'' w + 1 \<and>
         fallbacks_used (snd (invoke g fmt inp w)) = fallbacks_used w + 1"
proof -
  let ?e = "Assistant ValidationError
              (if strip s = [] then ''user_message cannot be empty''
               else ''user_message too long (max 1000 characters)'') MEDIUM"
  let ?w1 = "snd (invoke_body g fmt inp w)"
  let ?w2 = "log_error ?e [(''function'', VStr ''invoke'')] ?w1"
  have body: "invoke_body g fmt inp w = (Inl ?e, ?w1)"
    using invoke_body_rejects(1)[OF assms, of g fmt w] by (simp add: prod_eq_iff)
  have "is_ValidationError ?e"
    by simp
  note broke = attempts_validation[of "invoke_body g fmt inp" w ?e ?w1, OF body this]
  have loop: "attempts 2 1 ''invoke'' (invoke_body g fmt inp) [0..2] None w = (Broke None, ?w2)"
    by (simp only: upto_rec1[of 0 2, simplified] broke)
  obtain item items where fb: "fallback_response = item # items"
    using fallback_response_truthy by blast
  have run: "invoke g fmt inp w = (Inr fallback_response, logger logger_warning (UsingFallback ''invoke'') ?w2)"
    unfolding invoke_def with_error_handling_def loop by (simp add: fb)
  have failed: "counter ''failed_requests'' ?w1 = counter ''failed_requests'' w + 1"
    using invoke_body_counters(2)[OF first_100_string[OF assms(1)], of g fmt w]
    by (simp add: invoke_body_rejects(1)[OF assms])
  show ?thesis
    unfolding run
    by (simp add: observed invoke_body_rejects(2)[OF assms] invoke_body_errors_logged
          invoke_body_fallbacks failed)
qed

theorem invalid_request_gets_fallback_witness:
  "fst (invoke (\<lambda>n x. Inr [(''intent'', VStr ''question_answering'')]) (\<lambda>v. ''?'')
         [(''user_message'', VStr ''   '')] (initial_world (\<lambda>n. of_nat n))) = Inr fallback_response \<and>
   map_of fallback_response ''intent'' = Some (VStr ''error'') \<and>
   graph_calls (snd (invoke (\<lambda>n x. Inr [(''intent'', VStr ''question_answering'')]) (\<lambda>v. ''?'')
         [(''user_message'', VStr ''   '')] (initial_world (\<lambda>n. of_nat n)))) = 0"
proof -
  have s: "strip ''   '' = [] \<or> 1000 < length ''   ''"
    by (simp add: strip_def isspace_def)
  have m: "map_of [(''user_message'', VStr ''   '')] ''user_message'' = Some (VStr ''   '')"
    by simp
  note t = invalid_request_gets_fallback[OF m s,
      of "\<lambda>n x. Inr [(''intent'', VStr ''question_answering'')]" "\<lambda>v. ''?''" "initial_world (\<lambda>n. of_nat n)"]
  have i: "graph_calls (initial_world (\<lambda>n. of_nat n)) = 0"
    by (simp add: initial_world_def)
  have f: "map_of fallback_response ''intent'' = Some (VStr ''error'')"
    by (simp add: fallback_response_def)
  from t i f show ?thesis by simp
qed






text \<open>
  C5 (as stated). The rate in the summary is not the share of failed requests: one failed request
  recorded by a collector that has just started gives a summary with one request, one
  failure and an error rate of 0.
\<close>

theorem error_rate_counterexample:
  "errors_rate (fst (get_metrics_summary
     (record_request (\<lambda>v. ''?'') (VStr ''error'') (1 / 2) False (initial_world (\<lambda>n. of_nat n))))) = 0 \<and>
   requests_failed (fst (get_metrics_summary
     (record_request (\<lambda>v. ''?'') (VStr ''error'') (1 / 2) False (initial_world (\<lambda>n. of_nat n))))) = 1 \<and>
   requests_total (fst (get_metrics_summary
     (record_request (\<lambda>v. ''?'') (VStr ''error'') (1 / 2) False (initial_world (\<lambda>n. of_nat n))))) = 1"
  by (simp add: get_metrics_summary_reads counter_record_request startswith_def initial_counters)

text \<open>
  C5 (amended). The summary divides the counter \<open>total_errors\<close> by
  \<open>max(total_requests, 1)\<close>. \<open>record_request\<close> never writes \<open>total_errors\<close>: after any
  sequence of its calls the rate is the \<open>total_errors\<close> there was before, over the
  requests counted since, whatever the number of failures among them; it is defined
  with zero requests, and it is 0 for a collector that started empty.
\<close>

theorem error_rate_reported:
  "errors_rate (fst (get_metrics_summary
      (fold (\<lambda>(intent, response_time, success). record_request fmt intent response_time success) calls w))) =
     of_int (counter ''total_errors'' w) / of_int (max (counter ''total_requests'' w + int (length calls)) 1) \<and>
   requests_failed (fst (get_metrics_summary
      (fold (\<lambda>(intent, response_time, success). record_request fmt intent response_time success) calls w))) =
     counter ''failed_requests'' w + int (length (filter (\<lambda>(intent, response_time, success). \<not> success) calls)) \<and>
   requests_total (fst (get_metrics_summary
      (fold (\<lambda>(intent, response_time, success). record_request fmt intent response_time success) calls w))) =
     counter ''total_requests'' w + int (length calls) \<and>
   errors_rate (fst (get_metrics_summary
      (fold (\<lambda>(intent, response_time, success). record_request fmt intent response_time success) calls
         (initial_world c)))) = 0"
proof -
  let ?call = "\<lambda>(intent, response_time, success). record_request fmt intent response_time success"
  have rate: "errors_rate (fst (get_metrics_summary (fold ?call calls v))) =
                of_int (counter ''total_errors'' v) / of_int (max (counter ''total_requests'' v + int (length calls)) 1)"
    for v
    by (simp only: get_metrics_summary_reads counters_after_requests)
  have failed: "requests_failed (fst (get_metrics_summary (fold ?call calls w))) =
                  counter ''failed_requests'' w +
                  int (length (filter (\<lambda>(intent, response_time, success). \<not> success) calls))"
    by (simp only: get_metrics_summary_reads counters_after_requests)
  have total: "requests_total (fst (get_metrics_summary (fold ?call calls w))) =
                 counter ''total_requests'' w + int (length calls)"
    by (simp only: get_metrics_summary_reads counters_after_requests)
  have "errors_rate (fst (get_metrics_summary (fold ?call calls (initial_world c)))) = 0"
    unfolding rate by (simp add: initial_counters)
  with rate[of w] failed total show ?thesis by simp
qed

theorem error_rate_reported_witness:
  "errors_rate (fst (get_metrics_summary
      (fold (\<lambda>(intent, response_time, success). record_request (\<lambda>v. ''?'') intent response_time success)
         [(VStr ''error'', 1 / 2, False), (VStr ''market_research'', 3, True), (VStr ''error'', 2, False)]
         (initial_world (\<lambda>n. of_nat n))))) = 0 \<and>
   requests_failed (fst (get_metrics_summary
      (fold (\<lambda>(intent, response_time, success). record_request (\<lambda>v. ''?'') intent response_time success)
         [(VStr ''error'', 1 / 2, False), (VStr ''market_research'', 3, True), (VStr ''error'', 2, False)]
         (initial_world (\<lambda>n. of_nat n))))) = 2 \<and>
   requests_total (fst (get_metrics_summary
      (fold (\<lambda>(intent, response_time, success). record_request (\<lambda>v. ''?'') intent response_time success)
         [(VStr ''error'', 1 / 2, False), (VStr ''market_research'', 3, True), (VStr ''error'', 2, False)]
         (initial_world (\<lambda>n. of_nat n))))) = 3"
proof -
  note t = error_rate_reported[of "\<lambda>v. ''?''"
      "[(VStr ''error'', 1 / 2, False), (VStr ''market_research'', 3, True), (VStr ''error'', 2, False)]"
      "initial_world (\<lambda>n. of_nat n)" "\<lambda>n. of_nat n"]
  have i: "counter ''total_errors'' (initial_world (\<lambda>n. of_nat n)) = 0"
      "counter ''total_requests'' (initial_world (\<lambda>n. of_nat n)) = 0"
      "counter ''failed_requests'' (initial_world (\<lambda>n. of_nat n)) = 0"
    by (simp_all only: initial_counters)
  have n: "int (length (filter (\<lambda>(intent, response_time, success). \<not> success)
             [(VStr ''error'', 1 / 2 :: rat, False), (VStr ''market_research'', 3, True), (VStr ''error'', 2, False)])) = 2"
      "int (length [(VStr ''error'', 1 / 2 :: rat, False), (VStr ''market_research'', 3, True), (VStr ''error'', 2, False)]) = 3"
    by simp_all
  from t show ?thesis
    unfolding i n by simp
qed




text \<open>
  C10 (as stated). A health check does not change every field of the collector: \<open>start_time\<close>
  and \<open>window_size\<close> are the same after it, and so is the counter \<open>total_errors\<close>,
  also when every attempt of the probe fails.
\<close>

theorem health_check_counterexample:
  "start_time (metrics_collector (snd (get_health_status
      (\<lambda>n x. Inl (Builtin ''RuntimeError'' ''model is down'')) (\<lambda>v. ''?'') (initial_world (\<lambda>n. of_nat n))))) =
     start_time (metrics_collector (initial_world (\<lambda>n. of_nat n))) \<and>
   window_size (metrics_collector (snd (get_health_status
      (\<lambda>n x. Inl (Builtin ''RuntimeError'' ''model is down'')) (\<lambda>v. ''?'') (initial_world (\<lambda>n. of_nat n))))) = 100 \<and>
   counter ''total_errors'' (snd (get_health_status
      (\<lambda>n x. Inl (Builtin ''RuntimeError'' ''model is down'')) (\<lambda>v. ''?'') (initial_world (\<lambda>n. of_nat n)))) = 0"
proof -
  let ?g = "\<lambda>(n :: nat) (x :: pydict). Inl (Builtin ''RuntimeError'' ''model is down'') :: exception + pydict"
  let ?w = "initial_world (\<lambda>n. of_nat n)"
  from probe_run[of ?g "\<lambda>v. ''?''" ?w]
  have "start_time (metrics_collector (snd (invoke ?g (\<lambda>v. ''?'') test_request ?w))) =
          start_time (metrics_collector ?w)"
    and "window_size (metrics_collector (snd (invoke ?g (\<lambda>v. ''?'') test_request ?w))) =
          window_size (metrics_collector ?w)"
    by auto
  moreover have "window_size (metrics_collector ?w) = 100"
    by (simp add: initial_world_def)
  moreover have "counter ''total_errors'' (snd (invoke ?g (\<lambda>v. ''?'') test_request ?w)) = 0"
    unfolding invoke_def by (simp add: wrapped_other_counters startswith_def initial_counters)
  ultimately show ?thesis
    by (simp add: get_health_status_world)
qed

text \<open>
  C10 (amended). Every call of \<open>get_health_status\<close> sends the test request
  through \<open>invoke\<close>, which makes \<open>n\<close> attempts, between one and three. Each attempt
  counts as a request: the request count, the calls of the graph and the counter
  \<open>total_requests\<close> grow by \<open>n\<close>, the windows \<open>response_times\<close> and
  \<open>requests_per_minute\<close> get \<open>n\<close> new entries and the component \<open>graph_execution\<close>
  gets \<open>n\<close> new measurements (each kept within its bound). The report includes the
  probe: \<open>requests_processed\<close> is the old total plus \<open>n\<close>, the error rate divides by
  it, and the average response time is the average of the window after the probe.
  The collector's \<open>start_time\<close> and \<open>window_size\<close> and the counter \<open>total_errors\<close>
  stay as they were.
\<close>

theorem health_check_counts_itself:
  "\<exists>n. 1 \<le> n \<and> n \<le> 3 \<and>
     request_count (snd (get_health_status g fmt w)) = request_count w + int n \<and>
     graph_calls (snd (get_health_status g fmt w)) = graph_calls w + n \<and>
     counter ''total_requests'' (snd (get_health_status g fmt w)) = counter ''total_requests'' w + int n \<and>
     (\<exists>xs. length xs = n \<and>
        window ''response_times'' (snd (get_health_status g fmt w)) =
          newest (window_size (metrics_collector w)) (window ''response_times'' w @ xs)) \<and>
     (\<exists>ts. length ts = n \<and>
        window ''requests_per_minute'' (snd (get_health_status g fmt w)) =
          newest (window_size (metrics_collector w)) (window ''requests_per_minute'' w @ ts)) \<and>
     (\<exists>ms. length ms = n \<and>
        measurements_of ''graph_execution'' (snd (get_health_status g fmt w)) =
          newest 100 (measurements_of ''graph_execution'' w @ ms)) \<and>
     requests_processed (fst (get_health_status g fmt w)) = counter ''total_requests'' w + int n \<and>
     error_rate (fst (get_health_status g fmt w)) =
       of_int (counter ''total_errors'' w) / of_int (max (counter ''total_requests'' w + int n) 1) \<and>
     avg_response_time (fst (get_health_status g fmt w)) =
       (if window ''response_times'' (snd (get_health_status g fmt w)) = [] then 0
        else sum_list (window ''response_times'' (snd (get_health_status g fmt w))) /
             of_nat (length (window ''response_times'' (snd (get_health_status g fmt w))))) \<and>
     start_time (metrics_collector (snd (get_health_status g fmt w))) = start_time (metrics_collector w) \<and>
     window_size (metrics_collector (snd (get_health_status g fmt w))) = window_size (metrics_collector w) \<and>
     counter ''total_errors'' (snd (get_health_status g fmt w)) = counter ''total_errors'' w"
proof -
  have e: "counter ''total_errors'' (snd (invoke g fmt test_request w)) = counter ''total_errors'' w"
    unfolding invoke_def by (simp add: wrapped_other_counters startswith_def)
  from probe_run[of g fmt w] show ?thesis
    unfolding get_health_status_world get_health_status_reads e
    by (elim exE conjE, intro exI conjI) (assumption | simp)+
qed

theorem health_check_counts_itself_witness:
  "\<exists>n. 1 \<le> n \<and> n \<le> 3 \<and>
     requests_processed (fst (get_health_status
        (\<lambda>n x. Inr [(''intent'', VStr ''question_answering'')]) (\<lambda>v. ''?'') (initial_world (\<lambda>n. of_nat n)))) = int n \<and>
     request_count (snd (get_health_status
        (\<lambda>n x. Inr [(''intent'', VStr ''question_answering'')]) (\<lambda>v. ''?'') (initial_world (\<lambda>n. of_nat n)))) = int n \<and>
     error_rate (fst (get_health_status
        (\<lambda>n x. Inr [(''intent'', VStr ''question_answering'')]) (\<lambda>v. ''?'') (initial_world (\<lambda>n. of_nat n)))) = 0"
proof -
  let ?g = "\<lambda>(n :: nat) (x :: pydict). Inr [(''intent'', VStr ''question_answering'')] :: exception + pydict"
  let ?w = "initial_world (\<lambda>n. of_nat n)"
  have i: "request_count ?w = 0"
    by (simp add: initial_world_def)
  from health_check_counts_itself[of ?g "\<lambda>v. ''?''" ?w]
  obtain n where "1 \<le> n" "n \<le> 3"
    and "requests_processed (fst (get_health_status ?g (\<lambda>v. ''?'') ?w)) = int n"
    and "request_count (snd (get_health_status ?g (\<lambda>v. ''?'') ?w)) = int n"
    and "error_rate (fst (get_health_status ?g (\<lambda>v. ''?'') ?w)) = 0"
    unfolding i initial_counters by auto
  thus ?thesis by blast
qed

end
